theory Spec2Isabelle
  imports Main "HOL-Library.Sublist"
begin

section \<open>The two process bootstraps of main.go\<close>

text \<open>
  The file main.go holds two \<^verbatim>\<open>func main()\<close> bodies, two bootstraps: the second differs
  from the first in its flag defaults, in refusing standalone mode, and in the stores of
  its container mode.  Each is embedded as a function from the parsed command line
  and the answers of the outside world to the ordered list of calls the process makes
  and the way it ends.  Everything a bootstrap calls lives in other packages; what those
  calls answer is a field of the record \<open>env\<close>, and the values they hand back are
  named after the constructor that made them.
\<close>

subsection \<open>Values\<close>

type_synonym err = string

datatype level = LevelDebug | LevelInfo | LevelWarn | LevelError

datatype signal = SIGINT | SIGTERM

text \<open>\<^verbatim>\<open>context.Background()\<close> and the child made by \<^verbatim>\<open>context.WithCancel\<close>.\<close>

datatype ctx = Background | WithCancel ctx

text \<open>
  The backends, by constructor: \<^verbatim>\<open>queue.NewQueueSingle(n)\<close>, the queue returned by
  \<^verbatim>\<open>deploy.InitRabbitMQ(isAgent)\<close>, \<^verbatim>\<open>state.NewLocalState(id)\<close>, \<^verbatim>\<open>state.NewPGState()\<close>,
  and so on.
\<close>

datatype queue = QueueSingle nat | RabbitMQQueue bool

datatype state_store = LocalState int | PGState

datatype artifact_store = InMemoryArtifactStore | MinIOArtifactStore

datatype codeql_db_store =
    LocalFilesystemCodeQLDatabaseStore string
  | MinIOCodeQLDatabaseStore
  | HEPCDatabaseStore

text \<open>\<^verbatim>\<open>server.Visibles\<close>, the struct handed to \<^verbatim>\<open>server.NewCommanderSingle\<close>.\<close>

record visibles =
  Queue :: queue
  State :: state_store
  Artifacts :: artifact_store
  CodeQLDBStore :: codeql_db_store

text \<open>The part of the configuration the bootstrap reads: \<^verbatim>\<open>config.Storage.StartingID\<close>.\<close>

record storage =
  StartingID :: int

record config =
  Storage :: storage

text \<open>The four command-line flags after \<^verbatim>\<open>flag.Parse()\<close>.\<close>

record flags =
  helpFlag :: bool
  logLevel :: string
  mode :: string
  dbPathRoot :: string

text \<open>The defaults and usage texts the two bootstraps register for their flags.\<close>

definition default_flags1 :: flags where
  "default_flags1 =
     \<lparr>helpFlag = False, logLevel = ''info'', mode = ''standalone'', dbPathRoot = ''''\<rparr>"

definition default_flags2 :: flags where
  "default_flags2 =
     \<lparr>helpFlag = False, logLevel = ''debug'', mode = ''container'', dbPathRoot = ''''\<rparr>"


definition invalid_mode_message :: string where
  "invalid_mode_message =
     ''Invalid value for --mode. Allowed values are: standalone, container, cluster''"

definition deprecated_mode_message :: string where
  "deprecated_mode_message =
     ''--mode standalone is deprecated. Allowed values are: container, cluster''"

text \<open>
  What the outside world answers.  \<open>os_Executable\<close> is the pair returned by
  \<^verbatim>\<open>os.Executable()\<close> (\<open>Inl\<close> the error); \<open>filepath_Dir\<close> is the library function
  \<^verbatim>\<open>filepath.Dir\<close>; \<open>mcc_LoadConfig\<close> is the configuration that \<^verbatim>\<open>mcc.LoadConfig\<close>
  returns for a file name; the four \<open>deploy_Init\<close> fields give the error returned by the
  initialiser (\<open>None\<close> for \<^verbatim>\<open>nil\<close>); \<open>sigChan\<close> is the signal that arrives on the
  channel registered for SIGINT and SIGTERM, \<open>None\<close> when none ever arrives;
  \<open>wg_Wait\<close> says whether \<^verbatim>\<open>wg.Wait()\<close> returns.
\<close>

record env =
  os_Executable :: "err + string"
  filepath_Dir :: "string \<Rightarrow> string"
  mcc_LoadConfig :: "string \<Rightarrow> config"
  deploy_InitRabbitMQ :: "bool \<Rightarrow> err option"
  deploy_InitMinIOArtifactStore :: "err option"
  deploy_InitMinIOCodeQLDatabaseStore :: "err option"
  deploy_InitHEPCDatabaseStore :: "err option"
  sigChan :: "signal option"
  wg_Wait :: bool

subsection \<open>Calls and outcomes\<close>

datatype arg = ArgBool bool | ArgStr string

text \<open>
  One constructor per call a bootstrap makes, with the arguments it passes.
  \<open>RecvSignal\<close> is the receive \<^verbatim>\<open><-sigChan\<close> completing; \<open>GoStartAndMonitorWorkers\<close>
  is the \<^verbatim>\<open>go\<close> statement that starts the worker supervisor (its last argument,
  the address of the wait group, is the one wait group of the branch).
\<close>

datatype event =
    FlagUsage
  | SetLogLoggerLevel level
  | LogPrintf string "arg list"
  | SlogWarn string
  | SlogInfo string "(string \<times> string) list"
  | SlogError string "err option"
  | OsExecutable
  | LoadConfig string
  | SignalNotify "signal list"
  | NewQueueSingle nat
  | NewLocalState int
  | NewPGState
  | NewInMemoryArtifactStore
  | NewLocalFilesystemCodeQLDatabaseStore string
  | InitRabbitMQ bool
  | InitMinIOArtifactStore
  | InitMinIOCodeQLDatabaseStore
  | InitHEPCDatabaseStore
  | NewCommanderSingle visibles
  | ContextWithCancel ctx
  | GoStartAndMonitorWorkers ctx artifact_store codeql_db_store queue nat
  | RecvSignal signal
  | Cancel ctx
  | WgWait
  | QueueClose queue

text \<open>
  How the process ends: \<^verbatim>\<open>os.Exit(n)\<close>, \<open>main\<close> returning (exit status 0), or
  blocked for ever in a receive or a wait.
\<close>

datatype outcome = Exit nat | Returned | Blocked

datatype 'a step = Stop outcome | Continue 'a

text \<open>Sequencing: a phase that stopped the process stops the whole run.\<close>

definition seq :: "event list \<times> 'a step \<Rightarrow> ('a \<Rightarrow> event list \<times> 'b step) \<Rightarrow> event list \<times> 'b step"
  where
  "seq m f =
     (case m of
        (es, Stop out) \<Rightarrow> (es, Stop out)
      | (es, Continue x) \<Rightarrow> (case f x of (es', r) \<Rightarrow> (es @ es', r)))"

definition run :: "event list \<times> 'a step \<Rightarrow> event list \<times> outcome" where
  "run m = (case m of (es, Stop out) \<Rightarrow> (es, out) | (es, Continue x) \<Rightarrow> (es, Returned))"

subsection \<open>The phases shared by both bootstraps\<close>

text \<open>
  The switch on \<^verbatim>\<open>*logLevel\<close>: \<open>level_of\<close> is the level of each \<^verbatim>\<open>case\<close>,
  \<open>None\<close> for the \<^verbatim>\<open>default\<close> case.
\<close>

definition level_of :: "string \<Rightarrow> level option" where
  "level_of l =
     (if l = ''debug'' then Some LevelDebug
      else if l = ''info'' then Some LevelInfo
      else if l = ''warn'' then Some LevelWarn
      else if l = ''error'' then Some LevelError
      else None)"

definition apply_loglevel :: "string \<Rightarrow> event list \<times> unit step" where
  "apply_loglevel l =
     (case level_of l of
        Some lv \<Rightarrow> ([SetLogLoggerLevel lv], Continue ())
      | None \<Rightarrow>
          ([LogPrintf ''Invalid logging verbosity level: %s'' [ArgStr l]], Stop (Exit 1)))"

text \<open>
  ``Process database root if standalone and not provided'': the value of
  \<^verbatim>\<open>*dbPathRoot\<close> after the block, or the exit.
\<close>

definition process_dbroot :: "env \<Rightarrow> string \<Rightarrow> string \<Rightarrow> event list \<times> string step" where
  "process_dbroot e m dbp =
     (if m = ''standalone'' \<and> dbp = '''' then
        (case os_Executable e of
           Inl er \<Rightarrow>
             ([SlogWarn ''No database root path provided.'', OsExecutable,
               SlogError ''Failed to get executable path'' (Some er)], Stop (Exit 1))
         | Inr execPath \<Rightarrow>
             (let d = filepath_Dir e execPath @ ''/codeql/dbs/'' in
              ([SlogWarn ''No database root path provided.'', OsExecutable,
                SlogInfo ''Using default database root path'' [(''dbPathRoot'', d)]],
               Continue d)))
      else ([], Continue dbp))"

text \<open>``Output configuration summary''; each format ends with a newline.\<close>

definition summary :: "flags \<Rightarrow> event list \<times> unit step" where
  "summary fl =
     ([LogPrintf (''Help: %t'' @ [CHR 0x0A]) [ArgBool (helpFlag fl)],
       LogPrintf (''Log Level: %s'' @ [CHR 0x0A]) [ArgStr (logLevel fl)],
       LogPrintf (''Mode: %s'' @ [CHR 0x0A]) [ArgStr (mode fl)]], Continue ())"

text \<open>
  The three initialisers of the container branch, each followed by its error check.
  The value carried on is the backend; the queue's \<^verbatim>\<open>Close\<close> is deferred until
  \<open>main\<close> returns, and \<^verbatim>\<open>os.Exit\<close> runs no deferred call.
\<close>

definition init_queue :: "env \<Rightarrow> event list \<times> queue step" where
  "init_queue e =
     (let isAgent = False in
      case deploy_InitRabbitMQ e isAgent of
        Some er \<Rightarrow>
          ([InitRabbitMQ isAgent, SlogError ''Failed to initialize RabbitMQ'' (Some er)],
           Stop (Exit 1))
      | None \<Rightarrow> ([InitRabbitMQ isAgent], Continue (RabbitMQQueue isAgent)))"

definition init_artifacts :: "env \<Rightarrow> event list \<times> artifact_store step" where
  "init_artifacts e =
     (case deploy_InitMinIOArtifactStore e of
        Some er \<Rightarrow>
          ([InitMinIOArtifactStore, SlogError ''Failed to initialize artifact store'' (Some er)],
           Stop (Exit 1))
      | None \<Rightarrow> ([InitMinIOArtifactStore], Continue MinIOArtifactStore))"

definition init_databases1 :: "env \<Rightarrow> event list \<times> codeql_db_store step" where
  "init_databases1 e =
     (case deploy_InitMinIOCodeQLDatabaseStore e of
        Some er \<Rightarrow>
          ([InitMinIOCodeQLDatabaseStore,
            SlogError ''Failed to initialize database store'' (Some er)], Stop (Exit 1))
      | None \<Rightarrow> ([InitMinIOCodeQLDatabaseStore], Continue MinIOCodeQLDatabaseStore))"

definition init_databases2 :: "env \<Rightarrow> event list \<times> codeql_db_store step" where
  "init_databases2 e =
     (case deploy_InitHEPCDatabaseStore e of
        Some er \<Rightarrow>
          ([InitHEPCDatabaseStore,
            SlogError ''Failed to initialize database store'' (Some er)], Stop (Exit 1))
      | None \<Rightarrow> ([InitHEPCDatabaseStore], Continue HEPCDatabaseStore))"

text \<open>The receive \<^verbatim>\<open><-sigChan\<close>: it completes when a signal arrives.\<close>

definition recv_sigChan :: "env \<Rightarrow> event list \<times> signal step" where
  "recv_sigChan e =
     (case sigChan e of None \<Rightarrow> ([], Stop Blocked) | Some s \<Rightarrow> ([RecvSignal s], Continue s))"

subsection \<open>The first bootstrap\<close>

text \<open>
  The \<^verbatim>\<open>standalone\<close> case of the first bootstrap.  Nothing is deferred in it, so
  the list of deferred calls it carries on is empty.
\<close>

definition standalone1 :: "env \<Rightarrow> config \<Rightarrow> string \<Rightarrow> event list \<times> event list step" where
  "standalone1 e cfg dbp =
     (let sq = QueueSingle 2;
          ss = LocalState (StartingID (Storage cfg));
          as = InMemoryArtifactStore;
          ql = LocalFilesystemCodeQLDatabaseStore dbp;
          c = WithCancel Background
      in
      seq ([NewQueueSingle 2, NewLocalState (StartingID (Storage cfg)), NewInMemoryArtifactStore,
            NewLocalFilesystemCodeQLDatabaseStore dbp,
            NewCommanderSingle \<lparr>Queue = sq, State = ss, Artifacts = as, CodeQLDBStore = ql\<rparr>,
            ContextWithCancel Background,
            GoStartAndMonitorWorkers c as ql sq 2,
            SlogInfo ''Started server and standalone agent'' []], Continue ()) (\<lambda>_.
      seq (recv_sigChan e) (\<lambda>_.
      seq ([SlogInfo ''Shutting down...'' [], Cancel c, WgWait],
           if wg_Wait e then Continue () else Stop Blocked) (\<lambda>_.
      ([SlogInfo ''Agent shutdown complete'' []], Continue [])))))"

definition container1 :: "env \<Rightarrow> config \<Rightarrow> event list \<times> event list step" where
  "container1 e cfg =
     seq (init_queue e) (\<lambda>rabbitMQQueue.
     seq (init_artifacts e) (\<lambda>artifacts.
     seq (init_databases1 e) (\<lambda>databases.
     seq ([NewLocalState (StartingID (Storage cfg)),
           NewCommanderSingle
             \<lparr>Queue = rabbitMQQueue, State = LocalState (StartingID (Storage cfg)),
              Artifacts = artifacts, CodeQLDBStore = databases\<rparr>,
           SlogInfo ''Started server in container mode.'' []], Continue ()) (\<lambda>_.
     seq (recv_sigChan e) (\<lambda>_.
     ([], Continue [QueueClose rabbitMQQueue]))))))"

definition mode_switch1 :: "env \<Rightarrow> string \<Rightarrow> config \<Rightarrow> string \<Rightarrow> event list \<times> event list step"
  where
  "mode_switch1 e m cfg dbp =
     (if m = ''standalone'' then standalone1 e cfg dbp
      else if m = ''container'' then container1 e cfg
      else ([SlogError invalid_mode_message None], Stop (Exit 1)))"

definition main1 :: "env \<Rightarrow> flags \<Rightarrow> event list \<times> outcome" where
  "main1 e fl =
     run (if helpFlag fl then ([FlagUsage], Stop Returned)
          else
            seq (apply_loglevel (logLevel fl)) (\<lambda>_.
            seq (process_dbroot e (mode fl) (dbPathRoot fl)) (\<lambda>dbp.
            seq ([LoadConfig ''mcconfig.toml''], Continue (mcc_LoadConfig e ''mcconfig.toml''))
              (\<lambda>cfg.
            seq (summary fl) (\<lambda>_.
            seq ([SignalNotify [SIGINT, SIGTERM]], Continue ()) (\<lambda>_.
            seq (mode_switch1 e (mode fl) cfg dbp) (\<lambda>deferred.
            (SlogInfo ''Server shutdown complete'' [] # deferred,
             Continue ()))))))))"

subsection \<open>The second bootstrap\<close>

definition container2 :: "env \<Rightarrow> event list \<times> event list step" where
  "container2 e =
     seq (init_queue e) (\<lambda>rabbitMQQueue.
     seq (init_artifacts e) (\<lambda>artifacts.
     seq (init_databases2 e) (\<lambda>databases.
     seq ([NewPGState,
           NewCommanderSingle
             \<lparr>Queue = rabbitMQQueue, State = PGState,
              Artifacts = artifacts, CodeQLDBStore = databases\<rparr>,
           SlogInfo ''Started server in container mode.'' []], Continue ()) (\<lambda>_.
     seq (recv_sigChan e) (\<lambda>_.
     ([], Continue [QueueClose rabbitMQQueue]))))))"

definition mode_switch2 :: "env \<Rightarrow> string \<Rightarrow> event list \<times> event list step" where
  "mode_switch2 e m =
     (if m = ''standalone'' then ([SlogError deprecated_mode_message None], Stop (Exit 1))
      else if m = ''container'' then container2 e
      else ([SlogError invalid_mode_message None], Stop (Exit 1)))"

definition main2 :: "env \<Rightarrow> flags \<Rightarrow> event list \<times> outcome" where
  "main2 e fl =
     run (if helpFlag fl then ([FlagUsage], Stop Returned)
          else
            seq (apply_loglevel (logLevel fl)) (\<lambda>_.
            seq (process_dbroot e (mode fl) (dbPathRoot fl)) (\<lambda>dbp.
            seq (summary fl) (\<lambda>_.
            seq ([SignalNotify [SIGINT, SIGTERM]], Continue ()) (\<lambda>_.
            seq (mode_switch2 e (mode fl)) (\<lambda>deferred.
            (SlogInfo ''Server shutdown complete'' [] # deferred,
             Continue ())))))))"

subsection \<open>Reading a run\<close>

text \<open>The calls that construct or connect a backend.\<close>

fun is_backend_call :: "event \<Rightarrow> bool" where
  "is_backend_call (NewQueueSingle n) = True"
| "is_backend_call (NewLocalState i) = True"
| "is_backend_call NewPGState = True"
| "is_backend_call NewInMemoryArtifactStore = True"
| "is_backend_call (NewLocalFilesystemCodeQLDatabaseStore p) = True"
| "is_backend_call (InitRabbitMQ a) = True"
| "is_backend_call InitMinIOArtifactStore = True"
| "is_backend_call InitMinIOCodeQLDatabaseStore = True"
| "is_backend_call InitHEPCDatabaseStore = True"
| "is_backend_call ev = False"

fun is_commander_call :: "event \<Rightarrow> bool" where
  "is_commander_call (NewCommanderSingle v) = True"
| "is_commander_call ev = False"

fun is_worker_start :: "event \<Rightarrow> bool" where
  "is_worker_start (GoStartAndMonitorWorkers c a d q n) = True"
| "is_worker_start ev = False"

fun is_context_call :: "event \<Rightarrow> bool" where
  "is_context_call (ContextWithCancel c) = True"
| "is_context_call (Cancel c) = True"
| "is_context_call ev = False"

fun is_config_or_signal_call :: "event \<Rightarrow> bool" where
  "is_config_or_signal_call (LoadConfig f) = True"
| "is_config_or_signal_call (SignalNotify ss) = True"
| "is_config_or_signal_call ev = False"

text \<open>The four values of \<^verbatim>\<open>--loglevel\<close> that the switch knows.\<close>

definition loglevels :: "string set" where
  "loglevels = {''debug'', ''info'', ''warn'', ''error''}"

text \<open>The receipt of a signal.\<close>

fun is_signal_receipt :: "event \<Rightarrow> bool" where
  "is_signal_receipt (RecvSignal s) = True"
| "is_signal_receipt ev = False"

text \<open>
  \<open>backend_init_failed e tr er\<close>: in the run \<open>tr\<close> one of the backend initialisers was
  called and returned the error \<open>er\<close>.
\<close>

definition backend_init_failed :: "env \<Rightarrow> event list \<Rightarrow> err \<Rightarrow> bool" where
  "backend_init_failed e tr er =
     (InitRabbitMQ False \<in> set tr \<and> deploy_InitRabbitMQ e False = Some er
      \<or> InitMinIOArtifactStore \<in> set tr \<and> deploy_InitMinIOArtifactStore e = Some er
      \<or> InitMinIOCodeQLDatabaseStore \<in> set tr
          \<and> deploy_InitMinIOCodeQLDatabaseStore e = Some er
      \<or> InitHEPCDatabaseStore \<in> set tr \<and> deploy_InitHEPCDatabaseStore e = Some er)"

subsection \<open>Sample worlds and command lines\<close>

text \<open>
  A sample outside world for concrete runs: the executable is \<^verbatim>\<open>/opt/mrva/server\<close>,
  every initialiser succeeds, SIGTERM arrives and the wait group is released.
  \<open>dir_sample\<close> drops the last element of a path, as \<^verbatim>\<open>filepath.Dir\<close> does on a
  clean absolute path of two or more elements.
\<close>

definition dir_sample :: "string \<Rightarrow> string" where
  "dir_sample p = rev (tl (dropWhile (\<lambda>c. c \<noteq> CHR ''/'') (rev p)))"

definition sample_env :: env where
  "sample_env =
     \<lparr>os_Executable = Inr ''/opt/mrva/server'',
      filepath_Dir = dir_sample,
      mcc_LoadConfig = (\<lambda>f. \<lparr>Storage = \<lparr>StartingID = 10\<rparr>\<rparr>),
      deploy_InitRabbitMQ = (\<lambda>a. None),
      deploy_InitMinIOArtifactStore = None,
      deploy_InitMinIOCodeQLDatabaseStore = None,
      deploy_InitHEPCDatabaseStore = None,
      sigChan = Some SIGTERM,
      wg_Wait = True\<rparr>"

definition container_flags :: flags where
  "container_flags =
     \<lparr>helpFlag = False, logLevel = ''info'', mode = ''container'', dbPathRoot = ''''\<rparr>"

definition standalone_flags :: flags where
  "standalone_flags =
     \<lparr>helpFlag = False, logLevel = ''info'', mode = ''standalone'', dbPathRoot = ''''\<rparr>"

definition cluster_flags :: flags where
  "cluster_flags =
     \<lparr>helpFlag = False, logLevel = ''info'', mode = ''cluster'', dbPathRoot = ''''\<rparr>"

definition cluster_help_flags :: flags where
  "cluster_help_flags =
     \<lparr>helpFlag = True, logLevel = ''info'', mode = ''cluster'', dbPathRoot = ''''\<rparr>"

definition verbose_flags :: flags where
  "verbose_flags =
     \<lparr>helpFlag = False, logLevel = ''verbose'', mode = ''container'', dbPathRoot = ''''\<rparr>"

definition verbose_help_flags :: flags where
  "verbose_help_flags =
     \<lparr>helpFlag = True, logLevel = ''verbose'', mode = ''container'', dbPathRoot = ''''\<rparr>"

text \<open>The sample world with an object store that cannot be reached.\<close>

definition minio_down_env :: env where
  "minio_down_env = sample_env\<lparr>deploy_InitMinIOArtifactStore := Some ''connection refused''\<rparr>"

section \<open>The state store, from the specification\<close>

text \<open>
  The bootstraps only construct a state store (\<^verbatim>\<open>state.NewLocalState\<close>,
  \<^verbatim>\<open>state.NewPGState\<close>); the package \<^verbatim>\<open>state\<close> itself is not among the sources.  Its
  data and the two operations below are written from the specification, sections 3, 4.2,
  4.3, 7 and 8.
\<close>

text \<open>
  Modelled from the spec: the states of a work item (section 4.3), of which \<open>Succeeded\<close>
  and \<open>Failed\<close> are terminal.
\<close>

datatype wi_status = Enqueued | Claimed | Executing | Succeeded | Failed

definition terminal :: "wi_status \<Rightarrow> bool" where
  "terminal st = (st = Succeeded \<or> st = Failed)"

text \<open>
  Modelled from the spec: the derived status of a job (section 4.3); \<open>JobFailed\<close> is the
  job status \<^verbatim>\<open>Failed\<close>.
\<close>

datatype job_status = Submitted | Running | Completed | PartiallyFailed | JobFailed

text \<open>Modelled from the spec: the error taxonomy of section 7.\<close>

datatype store_error = TransportError | NotFound | Conflict | DispatchError | EngineFailure

text \<open>
  Modelled from the spec: a work item and a job with their attributes (section 3), and the
  store as the map from job identifiers to jobs.  A work item's identifier is unique
  within its job: it is the item's position in the job's list.
\<close>

record work_item =
  dataset :: string
  status :: wi_status
  claim_owner :: "string option"
  attempt_count :: nat
  artifact_key :: "string option"
  error_summary :: "string option"

record job =
  tool :: string
  submitted_at :: nat
  work_items :: "work_item list"

type_synonym store = "nat \<rightharpoonup> job"

text \<open>
  Modelled from the spec: \<^verbatim>\<open>CompleteWorkItem(id, result)\<close> of the state store, whose code is
  not among the sources.  The specification makes it the terminal transition to
  \<open>Succeeded\<close> that records the result artifact key, a no-op when repeated with the same
  result, and a \<open>Conflict\<close> when repeated with a different one.  It names no store
  operation that enters \<open>Executing\<close>, so the transition is taken from an item a worker
  holds (\<open>Claimed\<close> or \<open>Executing\<close>).  What the specification leaves open is filled in
  the most cautious way: an unknown identifier is \<open>NotFound\<close>, and an item that no worker
  holds (\<open>Enqueued\<close>) or that already \<open>Failed\<close> is refused with \<open>Conflict\<close>.  The
  operation returns the error, if any, and the store after the call.
\<close>

definition CompleteWorkItem :: "nat \<times> nat \<Rightarrow> string \<Rightarrow> store \<Rightarrow> store_error option \<times> store"
  where
  "CompleteWorkItem wid r s =
     (case s (fst wid) of
        None \<Rightarrow> (Some NotFound, s)
      | Some j \<Rightarrow>
          if length (work_items j) \<le> snd wid then (Some NotFound, s)
          else
            (let w = work_items j ! snd wid in
             case status w of
               Succeeded \<Rightarrow>
                 if artifact_key w = Some r then (None, s) else (Some Conflict, s)
             | Failed \<Rightarrow> (Some Conflict, s)
             | Enqueued \<Rightarrow> (Some Conflict, s)
             | _ \<Rightarrow>
                 (None,
                  s(fst wid \<mapsto>
                    j\<lparr>work_items :=
                        (work_items j)
                          [snd wid :=
                             w\<lparr>status := Succeeded, claim_owner := None,
                               artifact_key := Some r\<rparr>]\<rparr>))))"

text \<open>
  Modelled from the spec: the derivation of a job's status from the states of its items,
  whose code is not among the sources.  Section 4.3 lists the five statuses with their conditions;
  the conditions are tested in the order of that list, and an item counts as started
  once it has left \<open>Enqueued\<close>.
\<close>

definition job_status_of :: "wi_status list \<Rightarrow> job_status" where
  "job_status_of sts =
     (if list_all (\<lambda>st. st = Enqueued) sts then Submitted
      else if list_ex (\<lambda>st. \<not> terminal st) sts then Running
      else if list_all (\<lambda>st. st = Succeeded) sts then Completed
      else if list_ex (\<lambda>st. st = Failed) sts \<and> list_ex (\<lambda>st. st = Succeeded) sts
      then PartiallyFailed
      else JobFailed)"

text \<open>
  Modelled from the spec: \<^verbatim>\<open>GetJobStatus(id)\<close> of the state store, a read of the job's
  items; an unknown job is \<open>NotFound\<close>.
\<close>

definition GetJobStatus :: "nat \<Rightarrow> store \<Rightarrow> store_error + job_status" where
  "GetJobStatus jid s =
     (case s jid of
        None \<Rightarrow> Inl NotFound
      | Some j \<Rightarrow> Inr (job_status_of (map status (work_items j))))"

text \<open>A sample store: job 1 with one item being executed, and the same job completed.\<close>

definition sample_item :: work_item where
  "sample_item =
     \<lparr>dataset = ''db0'', status = Executing, claim_owner = Some ''unit-1'',
      attempt_count = 1, artifact_key = None, error_summary = None\<rparr>"

definition sample_store :: store where
  "sample_store = [1 \<mapsto> \<lparr>tool = ''query'', submitted_at = 0, work_items = [sample_item]\<rparr>]"

definition sample_store_done :: store where
  "sample_store_done =
     [1 \<mapsto> \<lparr>tool = ''query'', submitted_at = 0,
            work_items =
              [\<lparr>dataset = ''db0'', status = Succeeded, claim_owner = None,
                attempt_count = 1, artifact_key = Some ''result-a'',
                error_summary = None\<rparr>]\<rparr>]"

section \<open>The runs of the two bootstraps\<close>

lemmas phase_defs =
  run_def seq_def apply_loglevel_def process_dbroot_def summary_def init_queue_def
  init_artifacts_def init_databases1_def init_databases2_def recv_sigChan_def

lemmas bootstrap_defs =
  main1_def main2_def mode_switch1_def mode_switch2_def standalone1_def container1_def
  container2_def phase_defs

lemmas sample_defs =
  sample_env_def minio_down_env_def container_flags_def standalone_flags_def
  cluster_flags_def cluster_help_flags_def verbose_flags_def verbose_help_flags_def
  default_flags1_def default_flags2_def dir_sample_def

lemmas eval_defs =
  bootstrap_defs level_of_def loglevels_def Let_def sample_defs

text \<open>
  Both bootstraps are straight-line code with early exits, so every run is one of a few
  shapes.  The lemmas of this section list them: first the two branches of the mode
  switch, flattened, then every run of \<open>main1\<close> and of \<open>main2\<close> with the condition
  that selects it.
\<close>

lemma level_of_loglevels: "(level_of l = None) = (l \<notin> loglevels)"
  by (simp add: level_of_def loglevels_def)

lemma process_dbroot_snd:
  "snd (process_dbroot e m d) =
     (if m = ''standalone'' \<and> d = '''' then
        (case os_Executable e of
           Inl er \<Rightarrow> Stop (Exit 1)
         | Inr p \<Rightarrow> Continue (filepath_Dir e p @ ''/codeql/dbs/''))
      else Continue d)"
  by (simp add: process_dbroot_def Let_def split: sum.split)

lemma standalone1_run:
  "standalone1 e cfg dbp =
     ([NewQueueSingle 2, NewLocalState (StartingID (Storage cfg)), NewInMemoryArtifactStore,
       NewLocalFilesystemCodeQLDatabaseStore dbp,
       NewCommanderSingle
         \<lparr>Queue = QueueSingle 2, State = LocalState (StartingID (Storage cfg)),
          Artifacts = InMemoryArtifactStore,
          CodeQLDBStore = LocalFilesystemCodeQLDatabaseStore dbp\<rparr>,
       ContextWithCancel Background,
       GoStartAndMonitorWorkers (WithCancel Background) InMemoryArtifactStore
         (LocalFilesystemCodeQLDatabaseStore dbp) (QueueSingle 2) 2,
       SlogInfo ''Started server and standalone agent'' []]
      @ (case sigChan e of
           None \<Rightarrow> []
         | Some s \<Rightarrow>
             [RecvSignal s, SlogInfo ''Shutting down...'' [], Cancel (WithCancel Background),
              WgWait]
             @ (if wg_Wait e then [SlogInfo ''Agent shutdown complete'' []] else [])),
      if sigChan e \<noteq> None \<and> wg_Wait e then Continue [] else Stop Blocked)"
  by (simp add: standalone1_def recv_sigChan_def seq_def Let_def split: option.split)

lemma container1_run:
  "container1 e cfg =
     (case deploy_InitRabbitMQ e False of
        Some er \<Rightarrow>
          ([InitRabbitMQ False, SlogError ''Failed to initialize RabbitMQ'' (Some er)],
           Stop (Exit 1))
      | None \<Rightarrow>
     (case deploy_InitMinIOArtifactStore e of
        Some er \<Rightarrow>
          ([InitRabbitMQ False, InitMinIOArtifactStore,
            SlogError ''Failed to initialize artifact store'' (Some er)], Stop (Exit 1))
      | None \<Rightarrow>
     (case deploy_InitMinIOCodeQLDatabaseStore e of
        Some er \<Rightarrow>
          ([InitRabbitMQ False, InitMinIOArtifactStore, InitMinIOCodeQLDatabaseStore,
            SlogError ''Failed to initialize database store'' (Some er)], Stop (Exit 1))
      | None \<Rightarrow>
          ([InitRabbitMQ False, InitMinIOArtifactStore, InitMinIOCodeQLDatabaseStore,
            NewLocalState (StartingID (Storage cfg)),
            NewCommanderSingle
              \<lparr>Queue = RabbitMQQueue False, State = LocalState (StartingID (Storage cfg)),
               Artifacts = MinIOArtifactStore, CodeQLDBStore = MinIOCodeQLDatabaseStore\<rparr>,
            SlogInfo ''Started server in container mode.'' []]
           @ (case sigChan e of None \<Rightarrow> [] | Some s \<Rightarrow> [RecvSignal s]),
           case sigChan e of
             None \<Rightarrow> Stop Blocked
           | Some s \<Rightarrow> Continue [QueueClose (RabbitMQQueue False)]))))"
  by (simp add: container1_def init_queue_def init_artifacts_def init_databases1_def
      recv_sigChan_def seq_def Let_def split: option.split)

lemma main1_runs:
  obtains
    (usage) "helpFlag fl" and "main1 e fl = ([FlagUsage], Returned)"
  | (badlevel) "\<not> helpFlag fl" and "logLevel fl \<notin> loglevels"
      and "main1 e fl =
        ([LogPrintf ''Invalid logging verbosity level: %s'' [ArgStr (logLevel fl)]], Exit 1)"
  | (noexec) lv er where "\<not> helpFlag fl" and "level_of (logLevel fl) = Some lv"
      and "mode fl = ''standalone''" and "dbPathRoot fl = ''''"
      and "os_Executable e = Inl er"
      and "main1 e fl =
        ([SetLogLoggerLevel lv, SlogWarn ''No database root path provided.'', OsExecutable,
          SlogError ''Failed to get executable path'' (Some er)], Exit 1)"
  | (given) lv where "\<not> helpFlag fl" and "level_of (logLevel fl) = Some lv"
      and "mode fl = ''standalone''" and "dbPathRoot fl \<noteq> ''''"
      and "main1 e fl =
        (case standalone1 e (mcc_LoadConfig e ''mcconfig.toml'') (dbPathRoot fl) of
           (es, r) \<Rightarrow>
             ([SetLogLoggerLevel lv, LoadConfig ''mcconfig.toml''] @ fst (summary fl)
              @ [SignalNotify [SIGINT, SIGTERM]] @ es
              @ (case r of Stop out \<Rightarrow> []
                 | Continue d \<Rightarrow> SlogInfo ''Server shutdown complete'' [] # d),
              case r of Stop out \<Rightarrow> out | Continue d \<Rightarrow> Returned))"
  | (derived) lv p where "\<not> helpFlag fl" and "level_of (logLevel fl) = Some lv"
      and "mode fl = ''standalone''" and "dbPathRoot fl = ''''"
      and "os_Executable e = Inr p"
      and "main1 e fl =
        (case standalone1 e (mcc_LoadConfig e ''mcconfig.toml'')
                (filepath_Dir e p @ ''/codeql/dbs/'') of
           (es, r) \<Rightarrow>
             ([SetLogLoggerLevel lv, SlogWarn ''No database root path provided.'',
               OsExecutable,
               SlogInfo ''Using default database root path''
                 [(''dbPathRoot'', filepath_Dir e p @ ''/codeql/dbs/'')],
               LoadConfig ''mcconfig.toml''] @ fst (summary fl)
              @ [SignalNotify [SIGINT, SIGTERM]] @ es
              @ (case r of Stop out \<Rightarrow> []
                 | Continue d \<Rightarrow> SlogInfo ''Server shutdown complete'' [] # d),
              case r of Stop out \<Rightarrow> out | Continue d \<Rightarrow> Returned))"
  | (container) lv where "\<not> helpFlag fl" and "level_of (logLevel fl) = Some lv"
      and "mode fl = ''container''"
      and "main1 e fl =
        (case container1 e (mcc_LoadConfig e ''mcconfig.toml'') of
           (es, r) \<Rightarrow>
             ([SetLogLoggerLevel lv, LoadConfig ''mcconfig.toml''] @ fst (summary fl)
              @ [SignalNotify [SIGINT, SIGTERM]] @ es
              @ (case r of Stop out \<Rightarrow> []
                 | Continue d \<Rightarrow> SlogInfo ''Server shutdown complete'' [] # d),
              case r of Stop out \<Rightarrow> out | Continue d \<Rightarrow> Returned))"
  | (other) lv where "\<not> helpFlag fl" and "level_of (logLevel fl) = Some lv"
      and "mode fl \<noteq> ''standalone''" and "mode fl \<noteq> ''container''"
      and "main1 e fl =
        ([SetLogLoggerLevel lv, LoadConfig ''mcconfig.toml''] @ fst (summary fl)
         @ [SignalNotify [SIGINT, SIGTERM], SlogError invalid_mode_message None], Exit 1)"
proof (cases "helpFlag fl")
  case True
  have "main1 e fl = ([FlagUsage], Returned)"
    using True by (simp add: main1_def run_def)
  with True show ?thesis by (rule usage)
next
  case nohelp: False
  show ?thesis
  proof (cases "level_of (logLevel fl)")
    case None
    have "main1 e fl =
        ([LogPrintf ''Invalid logging verbosity level: %s'' [ArgStr (logLevel fl)]], Exit 1)"
      using nohelp None by (simp add: main1_def run_def seq_def apply_loglevel_def)
    moreover have "logLevel fl \<notin> loglevels"
      using None by (simp add: level_of_loglevels)
    ultimately show ?thesis using nohelp badlevel by blast
  next
    case (Some lv)
    have start: "apply_loglevel (logLevel fl) = ([SetLogLoggerLevel lv], Continue ())"
      using Some by (simp add: apply_loglevel_def)
    consider (sa_empty) "mode fl = ''standalone''" "dbPathRoot fl = ''''"
      | (sa_given) "mode fl = ''standalone''" "dbPathRoot fl \<noteq> ''''"
      | (ct) "mode fl = ''container''"
      | (ot) "mode fl \<noteq> ''standalone''" "mode fl \<noteq> ''container''"
      by blast
    then show ?thesis
    proof cases
      case sa_empty
      show ?thesis
      proof (cases "os_Executable e")
        case (Inl er)
        show ?thesis
          by (rule noexec[OF nohelp Some sa_empty Inl])
            (simp add: main1_def run_def seq_def process_dbroot_def start nohelp sa_empty Inl)
      next
        case (Inr p)
        show ?thesis
          by (rule derived[OF nohelp Some sa_empty Inr])
            (simp add: main1_def run_def seq_def process_dbroot_def mode_switch1_def
              summary_def Let_def start nohelp sa_empty Inr split: prod.split step.split)
      qed
    next
      case sa_given
      show ?thesis
        by (rule given[OF nohelp Some sa_given])
          (simp add: main1_def run_def seq_def process_dbroot_def mode_switch1_def
            summary_def start nohelp sa_given split: prod.split step.split)
    next
      case ct
      show ?thesis
        by (rule container[OF nohelp Some ct])
          (simp add: main1_def run_def seq_def process_dbroot_def mode_switch1_def
            summary_def start nohelp ct split: prod.split step.split)
    next
      case ot
      show ?thesis
        by (rule other[OF nohelp Some ot])
          (simp add: main1_def run_def seq_def process_dbroot_def mode_switch1_def
            summary_def start nohelp ot)
    qed
  qed
qed

lemma container2_run:
  "container2 e =
     (case deploy_InitRabbitMQ e False of
        Some er \<Rightarrow>
          ([InitRabbitMQ False, SlogError ''Failed to initialize RabbitMQ'' (Some er)],
           Stop (Exit 1))
      | None \<Rightarrow>
     (case deploy_InitMinIOArtifactStore e of
        Some er \<Rightarrow>
          ([InitRabbitMQ False, InitMinIOArtifactStore,
            SlogError ''Failed to initialize artifact store'' (Some er)], Stop (Exit 1))
      | None \<Rightarrow>
     (case deploy_InitHEPCDatabaseStore e of
        Some er \<Rightarrow>
          ([InitRabbitMQ False, InitMinIOArtifactStore, InitHEPCDatabaseStore,
            SlogError ''Failed to initialize database store'' (Some er)], Stop (Exit 1))
      | None \<Rightarrow>
          ([InitRabbitMQ False, InitMinIOArtifactStore, InitHEPCDatabaseStore, NewPGState,
            NewCommanderSingle
              \<lparr>Queue = RabbitMQQueue False, State = PGState,
               Artifacts = MinIOArtifactStore, CodeQLDBStore = HEPCDatabaseStore\<rparr>,
            SlogInfo ''Started server in container mode.'' []]
           @ (case sigChan e of None \<Rightarrow> [] | Some s \<Rightarrow> [RecvSignal s]),
           case sigChan e of
             None \<Rightarrow> Stop Blocked
           | Some s \<Rightarrow> Continue [QueueClose (RabbitMQQueue False)]))))"
  by (simp add: container2_def init_queue_def init_artifacts_def init_databases2_def
      recv_sigChan_def seq_def Let_def split: option.split)

lemma main2_runs:
  obtains
    (usage) "helpFlag fl" and "main2 e fl = ([FlagUsage], Returned)"
  | (badlevel) "\<not> helpFlag fl" and "logLevel fl \<notin> loglevels"
      and "main2 e fl =
        ([LogPrintf ''Invalid logging verbosity level: %s'' [ArgStr (logLevel fl)]], Exit 1)"
  | (noexec) lv er where "\<not> helpFlag fl" and "level_of (logLevel fl) = Some lv"
      and "mode fl = ''standalone''" and "dbPathRoot fl = ''''"
      and "os_Executable e = Inl er"
      and "main2 e fl =
        ([SetLogLoggerLevel lv, SlogWarn ''No database root path provided.'', OsExecutable,
          SlogError ''Failed to get executable path'' (Some er)], Exit 1)"
  | (given) lv where "\<not> helpFlag fl" and "level_of (logLevel fl) = Some lv"
      and "mode fl = ''standalone''" and "dbPathRoot fl \<noteq> ''''"
      and "main2 e fl =
        ([SetLogLoggerLevel lv] @ fst (summary fl)
         @ [SignalNotify [SIGINT, SIGTERM], SlogError deprecated_mode_message None], Exit 1)"
  | (derived) lv p where "\<not> helpFlag fl" and "level_of (logLevel fl) = Some lv"
      and "mode fl = ''standalone''" and "dbPathRoot fl = ''''"
      and "os_Executable e = Inr p"
      and "main2 e fl =
        ([SetLogLoggerLevel lv, SlogWarn ''No database root path provided.'', OsExecutable,
          SlogInfo ''Using default database root path''
            [(''dbPathRoot'', filepath_Dir e p @ ''/codeql/dbs/'')]] @ fst (summary fl)
         @ [SignalNotify [SIGINT, SIGTERM], SlogError deprecated_mode_message None], Exit 1)"
  | (container) lv where "\<not> helpFlag fl" and "level_of (logLevel fl) = Some lv"
      and "mode fl = ''container''"
      and "main2 e fl =
        (case container2 e of
           (es, r) \<Rightarrow>
             ([SetLogLoggerLevel lv] @ fst (summary fl)
              @ [SignalNotify [SIGINT, SIGTERM]] @ es
              @ (case r of Stop out \<Rightarrow> []
                 | Continue d \<Rightarrow> SlogInfo ''Server shutdown complete'' [] # d),
              case r of Stop out \<Rightarrow> out | Continue d \<Rightarrow> Returned))"
  | (other) lv where "\<not> helpFlag fl" and "level_of (logLevel fl) = Some lv"
      and "mode fl \<noteq> ''standalone''" and "mode fl \<noteq> ''container''"
      and "main2 e fl =
        ([SetLogLoggerLevel lv] @ fst (summary fl)
         @ [SignalNotify [SIGINT, SIGTERM], SlogError invalid_mode_message None], Exit 1)"
proof (cases "helpFlag fl")
  case True
  have "main2 e fl = ([FlagUsage], Returned)"
    using True by (simp add: main2_def run_def)
  with True show ?thesis by (rule usage)
next
  case nohelp: False
  show ?thesis
  proof (cases "level_of (logLevel fl)")
    case None
    have "main2 e fl =
        ([LogPrintf ''Invalid logging verbosity level: %s'' [ArgStr (logLevel fl)]], Exit 1)"
      using nohelp None by (simp add: main2_def run_def seq_def apply_loglevel_def)
    moreover have "logLevel fl \<notin> loglevels"
      using None by (simp add: level_of_loglevels)
    ultimately show ?thesis using nohelp badlevel by blast
  next
    case (Some lv)
    have start: "apply_loglevel (logLevel fl) = ([SetLogLoggerLevel lv], Continue ())"
      using Some by (simp add: apply_loglevel_def)
    consider (sa_empty) "mode fl = ''standalone''" "dbPathRoot fl = ''''"
      | (sa_given) "mode fl = ''standalone''" "dbPathRoot fl \<noteq> ''''"
      | (ct) "mode fl = ''container''"
      | (ot) "mode fl \<noteq> ''standalone''" "mode fl \<noteq> ''container''"
      by blast
    then show ?thesis
    proof cases
      case sa_empty
      show ?thesis
      proof (cases "os_Executable e")
        case (Inl er)
        show ?thesis
          by (rule noexec[OF nohelp Some sa_empty Inl])
            (simp add: main2_def run_def seq_def process_dbroot_def start nohelp sa_empty Inl)
      next
        case (Inr p)
        show ?thesis
          by (rule derived[OF nohelp Some sa_empty Inr])
            (simp add: main2_def run_def seq_def process_dbroot_def mode_switch2_def
              summary_def Let_def start nohelp sa_empty Inr)
      qed
    next
      case sa_given
      show ?thesis
        by (rule given[OF nohelp Some sa_given])
          (simp add: main2_def run_def seq_def process_dbroot_def mode_switch2_def
            summary_def start nohelp sa_given)
    next
      case ct
      show ?thesis
        by (rule container[OF nohelp Some ct])
          (simp add: main2_def run_def seq_def process_dbroot_def mode_switch2_def
            summary_def start nohelp ct split: prod.split step.split)
    next
      case ot
      show ?thesis
        by (rule other[OF nohelp Some ot])
          (simp add: main2_def run_def seq_def process_dbroot_def mode_switch2_def
            summary_def start nohelp ot)
    qed
  qed
qed

section \<open>Claims about the bootstraps\<close>

subsection \<open>C1: a failed backend initialisation is fatal\<close>

lemma main1_init_failure:
  assumes "backend_init_failed e (fst (main1 e fl)) er"
  shows "mode fl = ''container'' \<and> snd (main1 e fl) = Exit 1
     \<and> (\<exists>msg. last (fst (main1 e fl)) = SlogError msg (Some er))
     \<and> \<not> list_ex is_commander_call (fst (main1 e fl))"
proof (cases rule: main1_runs[of fl e])
  case container
  then show ?thesis using assms
    by (auto simp: backend_init_failed_def container1_run summary_def
        split: option.splits if_splits)
qed (use assms in \<open>auto simp: backend_init_failed_def standalone1_run summary_def
        split: option.splits if_splits\<close>)

lemma main2_init_failure:
  assumes "backend_init_failed e (fst (main2 e fl)) er"
  shows "mode fl = ''container'' \<and> snd (main2 e fl) = Exit 1
     \<and> (\<exists>msg. last (fst (main2 e fl)) = SlogError msg (Some er))
     \<and> \<not> list_ex is_commander_call (fst (main2 e fl))"
proof (cases rule: main2_runs[of fl e])
  case container
  then show ?thesis using assms
    by (auto simp: backend_init_failed_def container2_run summary_def
        split: option.splits if_splits)
qed (use assms in \<open>auto simp: backend_init_failed_def summary_def
        split: option.splits if_splits\<close>)

lemma main1_no_degraded_mode:
  assumes "mode fl = ''container''"
    and "deploy_InitRabbitMQ e False \<noteq> None \<or> deploy_InitMinIOArtifactStore e \<noteq> None
         \<or> deploy_InitMinIOCodeQLDatabaseStore e \<noteq> None"
  shows "\<not> list_ex is_commander_call (fst (main1 e fl)) \<and> snd (main1 e fl) \<noteq> Blocked"
proof (cases rule: main1_runs[of fl e])
  case container
  then show ?thesis using assms(2)
    by (auto simp: container1_run summary_def split: option.splits)
qed (use assms in \<open>auto simp: summary_def\<close>)

lemma main2_no_degraded_mode:
  assumes "mode fl = ''container''"
    and "deploy_InitRabbitMQ e False \<noteq> None \<or> deploy_InitMinIOArtifactStore e \<noteq> None
         \<or> deploy_InitHEPCDatabaseStore e \<noteq> None"
  shows "\<not> list_ex is_commander_call (fst (main2 e fl)) \<and> snd (main2 e fl) \<noteq> Blocked"
proof (cases rule: main2_runs[of fl e])
  case container
  then show ?thesis using assms(2)
    by (auto simp: container2_run summary_def split: option.splits)
qed (use assms in \<open>auto simp: summary_def\<close>)

lemma main1_container_init_error:
  assumes "\<not> helpFlag fl" and "logLevel fl \<in> loglevels" and "mode fl = ''container''"
  shows "(deploy_InitRabbitMQ e False = Some er \<longrightarrow>
      snd (main1 e fl) = Exit 1
      \<and> last (fst (main1 e fl)) = SlogError ''Failed to initialize RabbitMQ'' (Some er)
      \<and> \<not> list_ex is_commander_call (fst (main1 e fl)))
   \<and> (deploy_InitRabbitMQ e False = None \<and> deploy_InitMinIOArtifactStore e = Some er \<longrightarrow>
      snd (main1 e fl) = Exit 1
      \<and> last (fst (main1 e fl)) = SlogError ''Failed to initialize artifact store'' (Some er)
      \<and> \<not> list_ex is_commander_call (fst (main1 e fl)))
   \<and> (deploy_InitRabbitMQ e False = None \<and> deploy_InitMinIOArtifactStore e = None
       \<and> deploy_InitMinIOCodeQLDatabaseStore e = Some er \<longrightarrow>
      snd (main1 e fl) = Exit 1
      \<and> last (fst (main1 e fl)) = SlogError ''Failed to initialize database store'' (Some er)
      \<and> \<not> list_ex is_commander_call (fst (main1 e fl)))"
proof (cases rule: main1_runs[of fl e])
  case (container lv)
  then show ?thesis
    by (auto simp: container1_run summary_def)
qed (use assms in auto)

lemma main2_container_init_error:
  assumes "\<not> helpFlag fl" and "logLevel fl \<in> loglevels" and "mode fl = ''container''"
  shows "(deploy_InitRabbitMQ e False = Some er \<longrightarrow>
      snd (main2 e fl) = Exit 1
      \<and> last (fst (main2 e fl)) = SlogError ''Failed to initialize RabbitMQ'' (Some er)
      \<and> \<not> list_ex is_commander_call (fst (main2 e fl)))
   \<and> (deploy_InitRabbitMQ e False = None \<and> deploy_InitMinIOArtifactStore e = Some er \<longrightarrow>
      snd (main2 e fl) = Exit 1
      \<and> last (fst (main2 e fl)) = SlogError ''Failed to initialize artifact store'' (Some er)
      \<and> \<not> list_ex is_commander_call (fst (main2 e fl)))
   \<and> (deploy_InitRabbitMQ e False = None \<and> deploy_InitMinIOArtifactStore e = None
       \<and> deploy_InitHEPCDatabaseStore e = Some er \<longrightarrow>
      snd (main2 e fl) = Exit 1
      \<and> last (fst (main2 e fl)) = SlogError ''Failed to initialize database store'' (Some er)
      \<and> \<not> list_ex is_commander_call (fst (main2 e fl)))"
proof (cases rule: main2_runs[of fl e])
  case (container lv)
  then show ?thesis
    by (auto simp: container2_run summary_def)
qed (use assms in auto)

text \<open>
  Claim C1.  Take a start of either bootstrap in container mode that gets as far as the
  mode switch (no \<^verbatim>\<open>--help\<close>, a valid log level).  If the message queue fails to
  initialise, or the queue initialises and the artifact store fails, or both initialise
  and the database store fails, then the last call of the run is the \<^verbatim>\<open>slog.Error\<close>
  that names the failed backend and carries its error, the process ends by
  \<^verbatim>\<open>os.Exit(1)\<close>, and no commander was created.  Read from the run instead: whenever an
  initialiser is called and returns an error, the run is in container mode, its last
  call logs that error, it ends by \<^verbatim>\<open>os.Exit(1)\<close> and holds no commander.  And in
  container mode a world in which one of the three initialisers fails never yields a
  commander and never leaves the process waiting for a signal: there is no
  degraded-but-running mode.
\<close>

theorem C1_init_failure_is_fatal:
  "(\<not> helpFlag fl \<and> logLevel fl \<in> loglevels \<and> mode fl = ''container'' \<longrightarrow>
      (deploy_InitRabbitMQ e False = Some er \<longrightarrow>
         snd (main1 e fl) = Exit 1
         \<and> last (fst (main1 e fl)) = SlogError ''Failed to initialize RabbitMQ'' (Some er)
         \<and> \<not> list_ex is_commander_call (fst (main1 e fl))
         \<and> snd (main2 e fl) = Exit 1
         \<and> last (fst (main2 e fl)) = SlogError ''Failed to initialize RabbitMQ'' (Some er)
         \<and> \<not> list_ex is_commander_call (fst (main2 e fl)))
      \<and> (deploy_InitRabbitMQ e False = None
          \<and> deploy_InitMinIOArtifactStore e = Some er \<longrightarrow>
         snd (main1 e fl) = Exit 1
         \<and> last (fst (main1 e fl))
             = SlogError ''Failed to initialize artifact store'' (Some er)
         \<and> \<not> list_ex is_commander_call (fst (main1 e fl))
         \<and> snd (main2 e fl) = Exit 1
         \<and> last (fst (main2 e fl))
             = SlogError ''Failed to initialize artifact store'' (Some er)
         \<and> \<not> list_ex is_commander_call (fst (main2 e fl)))
      \<and> (deploy_InitRabbitMQ e False = None \<and> deploy_InitMinIOArtifactStore e = None
          \<and> deploy_InitMinIOCodeQLDatabaseStore e = Some er \<longrightarrow>
         snd (main1 e fl) = Exit 1
         \<and> last (fst (main1 e fl))
             = SlogError ''Failed to initialize database store'' (Some er)
         \<and> \<not> list_ex is_commander_call (fst (main1 e fl)))
      \<and> (deploy_InitRabbitMQ e False = None \<and> deploy_InitMinIOArtifactStore e = None
          \<and> deploy_InitHEPCDatabaseStore e = Some er \<longrightarrow>
         snd (main2 e fl) = Exit 1
         \<and> last (fst (main2 e fl))
             = SlogError ''Failed to initialize database store'' (Some er)
         \<and> \<not> list_ex is_commander_call (fst (main2 e fl))))
   \<and> (backend_init_failed e (fst (main1 e fl)) er \<longrightarrow>
      mode fl = ''container'' \<and> snd (main1 e fl) = Exit 1
      \<and> (\<exists>msg. last (fst (main1 e fl)) = SlogError msg (Some er))
      \<and> \<not> list_ex is_commander_call (fst (main1 e fl)))
   \<and> (backend_init_failed e (fst (main2 e fl)) er \<longrightarrow>
      mode fl = ''container'' \<and> snd (main2 e fl) = Exit 1
      \<and> (\<exists>msg. last (fst (main2 e fl)) = SlogError msg (Some er))
      \<and> \<not> list_ex is_commander_call (fst (main2 e fl)))
   \<and> (mode fl = ''container''
       \<and> (deploy_InitRabbitMQ e False \<noteq> None \<or> deploy_InitMinIOArtifactStore e \<noteq> None
            \<or> deploy_InitMinIOCodeQLDatabaseStore e \<noteq> None) \<longrightarrow>
      \<not> list_ex is_commander_call (fst (main1 e fl)) \<and> snd (main1 e fl) \<noteq> Blocked)
   \<and> (mode fl = ''container''
       \<and> (deploy_InitRabbitMQ e False \<noteq> None \<or> deploy_InitMinIOArtifactStore e \<noteq> None
            \<or> deploy_InitHEPCDatabaseStore e \<noteq> None) \<longrightarrow>
      \<not> list_ex is_commander_call (fst (main2 e fl)) \<and> snd (main2 e fl) \<noteq> Blocked)"
proof -
  have i: "\<not> helpFlag fl \<and> logLevel fl \<in> loglevels \<and> mode fl = ''container'' \<longrightarrow>
      (deploy_InitRabbitMQ e False = Some er \<longrightarrow>
         snd (main1 e fl) = Exit 1
         \<and> last (fst (main1 e fl)) = SlogError ''Failed to initialize RabbitMQ'' (Some er)
         \<and> \<not> list_ex is_commander_call (fst (main1 e fl))
         \<and> snd (main2 e fl) = Exit 1
         \<and> last (fst (main2 e fl)) = SlogError ''Failed to initialize RabbitMQ'' (Some er)
         \<and> \<not> list_ex is_commander_call (fst (main2 e fl)))
      \<and> (deploy_InitRabbitMQ e False = None
          \<and> deploy_InitMinIOArtifactStore e = Some er \<longrightarrow>
         snd (main1 e fl) = Exit 1
         \<and> last (fst (main1 e fl))
             = SlogError ''Failed to initialize artifact store'' (Some er)
         \<and> \<not> list_ex is_commander_call (fst (main1 e fl))
         \<and> snd (main2 e fl) = Exit 1
         \<and> last (fst (main2 e fl))
             = SlogError ''Failed to initialize artifact store'' (Some er)
         \<and> \<not> list_ex is_commander_call (fst (main2 e fl)))
      \<and> (deploy_InitRabbitMQ e False = None \<and> deploy_InitMinIOArtifactStore e = None
          \<and> deploy_InitMinIOCodeQLDatabaseStore e = Some er \<longrightarrow>
         snd (main1 e fl) = Exit 1
         \<and> last (fst (main1 e fl))
             = SlogError ''Failed to initialize database store'' (Some er)
         \<and> \<not> list_ex is_commander_call (fst (main1 e fl)))
      \<and> (deploy_InitRabbitMQ e False = None \<and> deploy_InitMinIOArtifactStore e = None
          \<and> deploy_InitHEPCDatabaseStore e = Some er \<longrightarrow>
         snd (main2 e fl) = Exit 1
         \<and> last (fst (main2 e fl))
             = SlogError ''Failed to initialize database store'' (Some er)
         \<and> \<not> list_ex is_commander_call (fst (main2 e fl)))"
    using main1_container_init_error[of fl e er] main2_container_init_error[of fl e er]
    by blast
  have t1: "backend_init_failed e (fst (main1 e fl)) er \<longrightarrow>
      mode fl = ''container'' \<and> snd (main1 e fl) = Exit 1
      \<and> (\<exists>msg. last (fst (main1 e fl)) = SlogError msg (Some er))
      \<and> \<not> list_ex is_commander_call (fst (main1 e fl))"
    using main1_init_failure[of e fl er] by blast
  have t2: "backend_init_failed e (fst (main2 e fl)) er \<longrightarrow>
      mode fl = ''container'' \<and> snd (main2 e fl) = Exit 1
      \<and> (\<exists>msg. last (fst (main2 e fl)) = SlogError msg (Some er))
      \<and> \<not> list_ex is_commander_call (fst (main2 e fl))"
    using main2_init_failure[of e fl er] by blast
  have d1: "mode fl = ''container''
       \<and> (deploy_InitRabbitMQ e False \<noteq> None \<or> deploy_InitMinIOArtifactStore e \<noteq> None
            \<or> deploy_InitMinIOCodeQLDatabaseStore e \<noteq> None) \<longrightarrow>
      \<not> list_ex is_commander_call (fst (main1 e fl)) \<and> snd (main1 e fl) \<noteq> Blocked"
    using main1_no_degraded_mode[of fl e] by blast
  have d2: "mode fl = ''container''
       \<and> (deploy_InitRabbitMQ e False \<noteq> None \<or> deploy_InitMinIOArtifactStore e \<noteq> None
            \<or> deploy_InitHEPCDatabaseStore e \<noteq> None) \<longrightarrow>
      \<not> list_ex is_commander_call (fst (main2 e fl)) \<and> snd (main2 e fl) \<noteq> Blocked"
    using main2_no_degraded_mode[of fl e] by blast
  show ?thesis
    by (intro conjI i t1 t2 d1 d2)
qed

theorem C1_init_failure_is_fatal_witness:
  "\<not> helpFlag container_flags \<and> logLevel container_flags \<in> loglevels
   \<and> mode container_flags = ''container''
   \<and> deploy_InitRabbitMQ minio_down_env False = None
   \<and> deploy_InitMinIOArtifactStore minio_down_env = Some ''connection refused''
   \<and> snd (main1 minio_down_env container_flags) = Exit 1
   \<and> last (fst (main1 minio_down_env container_flags))
       = SlogError ''Failed to initialize artifact store'' (Some ''connection refused'')
   \<and> \<not> list_ex is_commander_call (fst (main1 minio_down_env container_flags))
   \<and> snd (main2 minio_down_env container_flags) = Exit 1
   \<and> last (fst (main2 minio_down_env container_flags))
       = SlogError ''Failed to initialize artifact store'' (Some ''connection refused'')
   \<and> \<not> list_ex is_commander_call (fst (main2 minio_down_env container_flags))"
proof -
  have h: "\<not> helpFlag container_flags \<and> logLevel container_flags \<in> loglevels
      \<and> mode container_flags = ''container''
      \<and> deploy_InitRabbitMQ minio_down_env False = None
      \<and> deploy_InitMinIOArtifactStore minio_down_env = Some ''connection refused''"
    by (simp add: container_flags_def loglevels_def minio_down_env_def sample_env_def)
  show ?thesis
    using h
      C1_init_failure_is_fatal[of container_flags minio_down_env "''connection refused''"]
    by blast
qed

subsection \<open>C9: an unknown log level\<close>

text \<open>
  Claim C9 as written speaks of every invocation whose \<^verbatim>\<open>--loglevel\<close> value is not one
  of the four levels.  The help flag is handled before the switch on the log level, so with
  \<^verbatim>\<open>--help\<close> such an invocation prints the usage and returns: no invalid-verbosity
  message, no exit with status 1.
\<close>

theorem C9_help_counterexample:
  "logLevel verbose_help_flags \<notin> loglevels
   \<and> main1 sample_env verbose_help_flags = ([FlagUsage], Returned)
   \<and> main2 sample_env verbose_help_flags = ([FlagUsage], Returned)"
  by (simp add: eval_defs)

text \<open>
  Claim C9, amended.  For every invocation without \<^verbatim>\<open>--help\<close> whose \<^verbatim>\<open>--loglevel\<close> value
  is outside debug, info, warn, error, both bootstraps print the invalid-verbosity message
  and exit with status 1, and that message is the only call of the run: no configuration
  is loaded, no signal handler installed, no backend assembled.  With \<^verbatim>\<open>--help\<close> the run
  is the usage text followed by the return of \<open>main\<close>, whatever the log level.
\<close>

theorem C9_invalid_loglevel:
  "(\<not> helpFlag fl \<and> logLevel fl \<notin> loglevels \<longrightarrow>
      main1 e fl =
        ([LogPrintf ''Invalid logging verbosity level: %s'' [ArgStr (logLevel fl)]], Exit 1)
      \<and> main2 e fl =
        ([LogPrintf ''Invalid logging verbosity level: %s'' [ArgStr (logLevel fl)]], Exit 1)
      \<and> \<not> list_ex (\<lambda>ev. is_config_or_signal_call ev \<or> is_backend_call ev
                          \<or> is_commander_call ev) (fst (main1 e fl))
      \<and> \<not> list_ex (\<lambda>ev. is_config_or_signal_call ev \<or> is_backend_call ev
                          \<or> is_commander_call ev) (fst (main2 e fl)))
   \<and> (helpFlag fl \<longrightarrow>
      main1 e fl = ([FlagUsage], Returned) \<and> main2 e fl = ([FlagUsage], Returned))"
proof -
  have "level_of (logLevel fl) = None" if "logLevel fl \<notin> loglevels"
    using that by (simp add: level_of_loglevels)
  then show ?thesis
    by (simp add: main1_def main2_def run_def seq_def apply_loglevel_def)
qed

theorem C9_invalid_loglevel_witness:
  "\<not> helpFlag verbose_flags \<and> logLevel verbose_flags \<notin> loglevels
   \<and> main1 sample_env verbose_flags =
        ([LogPrintf ''Invalid logging verbosity level: %s'' [ArgStr ''verbose'']], Exit 1)
   \<and> main2 sample_env verbose_flags =
        ([LogPrintf ''Invalid logging verbosity level: %s'' [ArgStr ''verbose'']], Exit 1)"
proof -
  have h: "\<not> helpFlag verbose_flags \<and> logLevel verbose_flags \<notin> loglevels"
    by (simp add: verbose_flags_def loglevels_def)
  have l: "logLevel verbose_flags = ''verbose''"
    by (simp add: verbose_flags_def)
  show ?thesis
    using h l C9_invalid_loglevel[of verbose_flags sample_env] by simp
qed

subsection \<open>C7: the cluster mode\<close>








subsection \<open>C3: the state store of container mode\<close>

text \<open>
  Claim C3 as written says that in every container-mode startup the commander's
  \<^verbatim>\<open>State\<close> is the persistent store.  The first bootstrap, started in container mode with every backend
  reachable, hands the commander \<^verbatim>\<open>state.NewLocalState(config.Storage.StartingID)\<close>,
  the in-memory store.
\<close>

theorem C3_local_state_counterexample:
  "mode container_flags = ''container''
   \<and> NewCommanderSingle
        \<lparr>Queue = RabbitMQQueue False, State = LocalState 10,
         Artifacts = MinIOArtifactStore, CodeQLDBStore = MinIOCodeQLDatabaseStore\<rparr>
      \<in> set (fst (main1 sample_env container_flags))
   \<and> LocalState 10 \<noteq> PGState"
  by (simp add: eval_defs)

lemma main2_commander_state:
  assumes "NewCommanderSingle v \<in> set (fst (main2 e fl))"
  shows "mode fl = ''container'' \<and> State v = PGState"
proof (cases rule: main2_runs[of fl e])
  case container
  then show ?thesis using assms
    by (auto simp: container2_run summary_def split: option.splits)
qed (use assms in \<open>auto simp: summary_def\<close>)

lemma main1_commander_state:
  assumes "NewCommanderSingle v \<in> set (fst (main1 e fl))"
  shows "State v = LocalState (StartingID (Storage (mcc_LoadConfig e ''mcconfig.toml'')))"
proof (cases rule: main1_runs[of fl e])
  case container
  then show ?thesis using assms
    by (auto simp: container1_run summary_def split: option.splits)
qed (use assms in \<open>auto simp: standalone1_run summary_def split: option.splits if_splits\<close>)

lemma main2_container_commander:
  assumes "\<not> helpFlag fl" and "logLevel fl \<in> loglevels" and "mode fl = ''container''"
    and "deploy_InitRabbitMQ e False = None" and "deploy_InitMinIOArtifactStore e = None"
    and "deploy_InitHEPCDatabaseStore e = None"
  shows "NewCommanderSingle
           \<lparr>Queue = RabbitMQQueue False, State = PGState,
            Artifacts = MinIOArtifactStore, CodeQLDBStore = HEPCDatabaseStore\<rparr>
         \<in> set (fst (main2 e fl))"
  by (cases rule: main2_runs[of fl e]) (use assms in \<open>auto simp: container2_run\<close>)

text \<open>
  Claim C3, amended.  In the second bootstrap a commander is created in container mode
  only, and its \<^verbatim>\<open>State\<close> is the store made by \<^verbatim>\<open>state.NewPGState()\<close>, the persistent
  relational backend; it is created whenever the three initialisers succeed.  In the first
  bootstrap the commander's \<^verbatim>\<open>State\<close>, in container mode as in standalone mode, is the
  in-memory store made by \<^verbatim>\<open>state.NewLocalState(config.Storage.StartingID)\<close>.
\<close>

theorem C3_commander_state_store:
  "(NewCommanderSingle v \<in> set (fst (main2 e fl)) \<longrightarrow>
      mode fl = ''container'' \<and> State v = PGState)
   \<and> (NewCommanderSingle v \<in> set (fst (main1 e fl)) \<longrightarrow>
      State v = LocalState (StartingID (Storage (mcc_LoadConfig e ''mcconfig.toml''))))
   \<and> (\<not> helpFlag fl \<and> logLevel fl \<in> loglevels \<and> mode fl = ''container''
       \<and> deploy_InitRabbitMQ e False = None \<and> deploy_InitMinIOArtifactStore e = None
       \<and> deploy_InitHEPCDatabaseStore e = None \<longrightarrow>
      NewCommanderSingle
        \<lparr>Queue = RabbitMQQueue False, State = PGState,
         Artifacts = MinIOArtifactStore, CodeQLDBStore = HEPCDatabaseStore\<rparr>
      \<in> set (fst (main2 e fl)))"
  using main2_commander_state[of v e fl] main1_commander_state[of v e fl]
    main2_container_commander[of fl e]
  by blast

theorem C3_commander_state_store_witness:
  "NewCommanderSingle
     \<lparr>Queue = RabbitMQQueue False, State = PGState,
      Artifacts = MinIOArtifactStore, CodeQLDBStore = HEPCDatabaseStore\<rparr>
   \<in> set (fst (main2 sample_env container_flags))
   \<and> mode container_flags = ''container''
   \<and> State \<lparr>Queue = RabbitMQQueue False, State = PGState,
      Artifacts = MinIOArtifactStore, CodeQLDBStore = HEPCDatabaseStore\<rparr> = PGState"
proof -
  have h: "\<not> helpFlag container_flags \<and> logLevel container_flags \<in> loglevels
      \<and> mode container_flags = ''container''
      \<and> deploy_InitRabbitMQ sample_env False = None
      \<and> deploy_InitMinIOArtifactStore sample_env = None
      \<and> deploy_InitHEPCDatabaseStore sample_env = None"
    by (simp add: container_flags_def loglevels_def sample_env_def)
  show ?thesis
    using h
      C3_commander_state_store[of
        "\<lparr>Queue = RabbitMQQueue False, State = PGState,
          Artifacts = MinIOArtifactStore, CodeQLDBStore = HEPCDatabaseStore\<rparr>"
        sample_env container_flags]
    by blast
qed

subsection \<open>C4: the cancellation token\<close>

text \<open>
  Claim C4 as written says that every mode branch that starts workers or a server creates
  a cancellable context and propagates it.  The container branch starts the commander and
  creates no context: it waits for the signal and then \<open>main\<close> returns.  Here is the whole
  run of the second bootstrap with its default flags.
\<close>

theorem C4_container_counterexample:
  "main2 sample_env default_flags2 =
     ([SetLogLoggerLevel LevelDebug,
       LogPrintf (''Help: %t'' @ [CHR 0x0A]) [ArgBool False],
       LogPrintf (''Log Level: %s'' @ [CHR 0x0A]) [ArgStr ''debug''],
       LogPrintf (''Mode: %s'' @ [CHR 0x0A]) [ArgStr ''container''],
       SignalNotify [SIGINT, SIGTERM], InitRabbitMQ False, InitMinIOArtifactStore,
       InitHEPCDatabaseStore, NewPGState,
       NewCommanderSingle
         \<lparr>Queue = RabbitMQQueue False, State = PGState,
          Artifacts = MinIOArtifactStore, CodeQLDBStore = HEPCDatabaseStore\<rparr>,
       SlogInfo ''Started server in container mode.'' [], RecvSignal SIGTERM,
       SlogInfo ''Server shutdown complete'' [], QueueClose (RabbitMQQueue False)],
      Returned)
   \<and> list_ex is_commander_call (fst (main2 sample_env default_flags2))
   \<and> \<not> list_ex is_context_call (fst (main2 sample_env default_flags2))"
  by (simp add: eval_defs)

lemma main2_no_context: "filter is_context_call (fst (main2 e fl)) = []"
proof (cases rule: main2_runs[of fl e])
  case container
  then show ?thesis
    by (auto simp: container2_run summary_def split: option.splits)
qed (auto simp: summary_def)

lemma main1_no_context:
  assumes "mode fl \<noteq> ''standalone''"
  shows "filter is_context_call (fst (main1 e fl)) = []"
proof (cases rule: main1_runs[of fl e])
  case container
  then show ?thesis
    by (auto simp: container1_run summary_def split: option.splits)
qed (use assms in \<open>auto simp: summary_def\<close>)

lemma main1_standalone_context:
  assumes "list_ex is_worker_start (fst (main1 e fl))"
  shows "mode fl = ''standalone''
     \<and> (\<exists>dbp.
          filter (\<lambda>ev. is_context_call ev \<or> is_worker_start ev \<or> is_signal_receipt ev)
            (fst (main1 e fl)) =
          [ContextWithCancel Background,
           GoStartAndMonitorWorkers (WithCancel Background) InMemoryArtifactStore
             (LocalFilesystemCodeQLDatabaseStore dbp) (QueueSingle 2) 2]
          @ (case sigChan e of
               None \<Rightarrow> []
             | Some s \<Rightarrow> [RecvSignal s, Cancel (WithCancel Background)]))"
proof (cases rule: main1_runs[of fl e])
  case container
  then show ?thesis using assms
    by (auto simp: container1_run summary_def split: option.splits)
next
  case (given lv)
  then show ?thesis
    by (auto simp: standalone1_run summary_def split: option.splits)
next
  case (derived lv p)
  then show ?thesis
    by (auto simp: standalone1_run summary_def split: option.splits)
qed (use assms in \<open>auto simp: summary_def\<close>)

lemma main1_standalone_token:
  assumes "\<not> helpFlag fl" and "logLevel fl \<in> loglevels" and "mode fl = ''standalone''"
    and "snd (process_dbroot e (mode fl) (dbPathRoot fl)) = Continue dbp"
  shows "filter (\<lambda>ev. is_context_call ev \<or> is_worker_start ev \<or> is_signal_receipt ev)
       (fst (main1 e fl)) =
     [ContextWithCancel Background,
      GoStartAndMonitorWorkers (WithCancel Background) InMemoryArtifactStore
        (LocalFilesystemCodeQLDatabaseStore dbp) (QueueSingle 2) 2]
     @ (case sigChan e of
          None \<Rightarrow> []
        | Some s \<Rightarrow> [RecvSignal s, Cancel (WithCancel Background)])"
proof (cases rule: main1_runs[of fl e])
  case (given lv)
  then show ?thesis using assms(4)
    by (auto simp: process_dbroot_snd standalone1_run summary_def split: option.splits)
next
  case (derived lv p)
  then show ?thesis using assms(4)
    by (auto simp: process_dbroot_snd standalone1_run summary_def split: option.splits)
qed (use assms in \<open>auto simp: process_dbroot_snd\<close>)

lemma main1_container_shutdown:
  assumes "\<not> helpFlag fl" and "level_of (logLevel fl) = Some lv"
    and "mode fl = ''container''"
    and "deploy_InitRabbitMQ e False = None" and "deploy_InitMinIOArtifactStore e = None"
    and "deploy_InitMinIOCodeQLDatabaseStore e = None"
  shows "main1 e fl =
     ([SetLogLoggerLevel lv, LoadConfig ''mcconfig.toml'',
       LogPrintf (''Help: %t'' @ [CHR 0x0A]) [ArgBool False],
       LogPrintf (''Log Level: %s'' @ [CHR 0x0A]) [ArgStr (logLevel fl)],
       LogPrintf (''Mode: %s'' @ [CHR 0x0A]) [ArgStr ''container''],
       SignalNotify [SIGINT, SIGTERM], InitRabbitMQ False, InitMinIOArtifactStore,
       InitMinIOCodeQLDatabaseStore,
       NewLocalState (StartingID (Storage (mcc_LoadConfig e ''mcconfig.toml''))),
       NewCommanderSingle
         \<lparr>Queue = RabbitMQQueue False,
          State = LocalState (StartingID (Storage (mcc_LoadConfig e ''mcconfig.toml''))),
          Artifacts = MinIOArtifactStore, CodeQLDBStore = MinIOCodeQLDatabaseStore\<rparr>,
       SlogInfo ''Started server in container mode.'' []]
      @ (case sigChan e of
           None \<Rightarrow> []
         | Some s \<Rightarrow>
             [RecvSignal s, SlogInfo ''Server shutdown complete'' [],
              QueueClose (RabbitMQQueue False)]),
      case sigChan e of None \<Rightarrow> Blocked | Some s \<Rightarrow> Returned)"
proof (cases rule: main1_runs[of fl e])
  case (container lv')
  then show ?thesis using assms
    by (auto simp: container1_run summary_def split: option.splits)
qed (use assms level_of_loglevels[of "logLevel fl"] in auto)

lemma main2_container_shutdown:
  assumes "\<not> helpFlag fl" and "level_of (logLevel fl) = Some lv"
    and "mode fl = ''container''"
    and "deploy_InitRabbitMQ e False = None" and "deploy_InitMinIOArtifactStore e = None"
    and "deploy_InitHEPCDatabaseStore e = None"
  shows "main2 e fl =
     ([SetLogLoggerLevel lv,
       LogPrintf (''Help: %t'' @ [CHR 0x0A]) [ArgBool False],
       LogPrintf (''Log Level: %s'' @ [CHR 0x0A]) [ArgStr (logLevel fl)],
       LogPrintf (''Mode: %s'' @ [CHR 0x0A]) [ArgStr ''container''],
       SignalNotify [SIGINT, SIGTERM], InitRabbitMQ False, InitMinIOArtifactStore,
       InitHEPCDatabaseStore, NewPGState,
       NewCommanderSingle
         \<lparr>Queue = RabbitMQQueue False, State = PGState,
          Artifacts = MinIOArtifactStore, CodeQLDBStore = HEPCDatabaseStore\<rparr>,
       SlogInfo ''Started server in container mode.'' []]
      @ (case sigChan e of
           None \<Rightarrow> []
         | Some s \<Rightarrow>
             [RecvSignal s, SlogInfo ''Server shutdown complete'' [],
              QueueClose (RabbitMQQueue False)]),
      case sigChan e of None \<Rightarrow> Blocked | Some s \<Rightarrow> Returned)"
proof (cases rule: main2_runs[of fl e])
  case (container lv')
  then show ?thesis using assms
    by (auto simp: container2_run summary_def split: option.splits)
qed (use assms level_of_loglevels[of "logLevel fl"] in auto)

text \<open>
  Claim C4, amended.  Only the standalone branch of the first bootstrap uses a
  cancellation token: a run that starts the worker supervisor creates one cancellable
  context from the background context, passes it to the supervisor, and cancels it after
  the signal has been received, in this order and with no other context call; every
  start in standalone mode that reaches the mode switch is such a run.  The container
  branches, and every other run of either bootstrap, create and cancel no context.  A
  container-mode start whose three initialisers succeed is, in either bootstrap, exactly
  this run: the initialisers, the state store, the commander, the line ``Started server
  in container mode.'', and then the receive on the signal channel.  Without a signal the
  process stays blocked there; with a signal it logs ``Server shutdown complete'', runs
  the deferred \<^verbatim>\<open>Close\<close> of the queue, and \<open>main\<close> returns.
\<close>

theorem C4_cancellation_token:
  "filter is_context_call (fst (main2 e fl)) = []
   \<and> (mode fl \<noteq> ''standalone'' \<longrightarrow> filter is_context_call (fst (main1 e fl)) = [])
   \<and> (list_ex is_worker_start (fst (main1 e fl)) \<longrightarrow>
      mode fl = ''standalone''
      \<and> (\<exists>dbp.
           filter (\<lambda>ev. is_context_call ev \<or> is_worker_start ev \<or> is_signal_receipt ev)
             (fst (main1 e fl)) =
           [ContextWithCancel Background,
            GoStartAndMonitorWorkers (WithCancel Background) InMemoryArtifactStore
              (LocalFilesystemCodeQLDatabaseStore dbp) (QueueSingle 2) 2]
           @ (case sigChan e of
                None \<Rightarrow> []
              | Some s \<Rightarrow> [RecvSignal s, Cancel (WithCancel Background)])))
   \<and> (\<not> helpFlag fl \<and> logLevel fl \<in> loglevels \<and> mode fl = ''standalone''
       \<and> snd (process_dbroot e (mode fl) (dbPathRoot fl)) = Continue dbp \<longrightarrow>
      filter (\<lambda>ev. is_context_call ev \<or> is_worker_start ev \<or> is_signal_receipt ev)
        (fst (main1 e fl)) =
      [ContextWithCancel Background,
       GoStartAndMonitorWorkers (WithCancel Background) InMemoryArtifactStore
         (LocalFilesystemCodeQLDatabaseStore dbp) (QueueSingle 2) 2]
      @ (case sigChan e of
           None \<Rightarrow> []
         | Some s \<Rightarrow> [RecvSignal s, Cancel (WithCancel Background)]))
   \<and> (\<not> helpFlag fl \<and> level_of (logLevel fl) = Some lv \<and> mode fl = ''container''
       \<and> deploy_InitRabbitMQ e False = None \<and> deploy_InitMinIOArtifactStore e = None
       \<and> deploy_InitMinIOCodeQLDatabaseStore e = None \<longrightarrow>
      main1 e fl =
        ([SetLogLoggerLevel lv, LoadConfig ''mcconfig.toml'',
          LogPrintf (''Help: %t'' @ [CHR 0x0A]) [ArgBool False],
          LogPrintf (''Log Level: %s'' @ [CHR 0x0A]) [ArgStr (logLevel fl)],
          LogPrintf (''Mode: %s'' @ [CHR 0x0A]) [ArgStr ''container''],
          SignalNotify [SIGINT, SIGTERM], InitRabbitMQ False, InitMinIOArtifactStore,
          InitMinIOCodeQLDatabaseStore,
          NewLocalState (StartingID (Storage (mcc_LoadConfig e ''mcconfig.toml''))),
          NewCommanderSingle
            \<lparr>Queue = RabbitMQQueue False,
             State = LocalState (StartingID (Storage (mcc_LoadConfig e ''mcconfig.toml''))),
             Artifacts = MinIOArtifactStore, CodeQLDBStore = MinIOCodeQLDatabaseStore\<rparr>,
          SlogInfo ''Started server in container mode.'' []]
         @ (case sigChan e of
              None \<Rightarrow> []
            | Some s \<Rightarrow>
                [RecvSignal s, SlogInfo ''Server shutdown complete'' [],
                 QueueClose (RabbitMQQueue False)]),
         case sigChan e of None \<Rightarrow> Blocked | Some s \<Rightarrow> Returned))
   \<and> (\<not> helpFlag fl \<and> level_of (logLevel fl) = Some lv \<and> mode fl = ''container''
       \<and> deploy_InitRabbitMQ e False = None \<and> deploy_InitMinIOArtifactStore e = None
       \<and> deploy_InitHEPCDatabaseStore e = None \<longrightarrow>
      main2 e fl =
        ([SetLogLoggerLevel lv,
          LogPrintf (''Help: %t'' @ [CHR 0x0A]) [ArgBool False],
          LogPrintf (''Log Level: %s'' @ [CHR 0x0A]) [ArgStr (logLevel fl)],
          LogPrintf (''Mode: %s'' @ [CHR 0x0A]) [ArgStr ''container''],
          SignalNotify [SIGINT, SIGTERM], InitRabbitMQ False, InitMinIOArtifactStore,
          InitHEPCDatabaseStore, NewPGState,
          NewCommanderSingle
            \<lparr>Queue = RabbitMQQueue False, State = PGState,
             Artifacts = MinIOArtifactStore, CodeQLDBStore = HEPCDatabaseStore\<rparr>,
          SlogInfo ''Started server in container mode.'' []]
         @ (case sigChan e of
              None \<Rightarrow> []
            | Some s \<Rightarrow>
                [RecvSignal s, SlogInfo ''Server shutdown complete'' [],
                 QueueClose (RabbitMQQueue False)]),
         case sigChan e of None \<Rightarrow> Blocked | Some s \<Rightarrow> Returned))"
proof -
  have a: "filter is_context_call (fst (main2 e fl)) = []"
    by (rule main2_no_context)
  have b: "mode fl \<noteq> ''standalone'' \<longrightarrow> filter is_context_call (fst (main1 e fl)) = []"
    using main1_no_context[of fl e] by blast
  have c: "list_ex is_worker_start (fst (main1 e fl)) \<longrightarrow>
      mode fl = ''standalone''
      \<and> (\<exists>dbp.
           filter (\<lambda>ev. is_context_call ev \<or> is_worker_start ev \<or> is_signal_receipt ev)
             (fst (main1 e fl)) =
           [ContextWithCancel Background,
            GoStartAndMonitorWorkers (WithCancel Background) InMemoryArtifactStore
              (LocalFilesystemCodeQLDatabaseStore dbp) (QueueSingle 2) 2]
           @ (case sigChan e of
                None \<Rightarrow> []
              | Some s \<Rightarrow> [RecvSignal s, Cancel (WithCancel Background)]))"
    using main1_standalone_context[of e fl] by blast
  have d: "\<not> helpFlag fl \<and> logLevel fl \<in> loglevels \<and> mode fl = ''standalone''
       \<and> snd (process_dbroot e (mode fl) (dbPathRoot fl)) = Continue dbp \<longrightarrow>
      filter (\<lambda>ev. is_context_call ev \<or> is_worker_start ev \<or> is_signal_receipt ev)
        (fst (main1 e fl)) =
      [ContextWithCancel Background,
       GoStartAndMonitorWorkers (WithCancel Background) InMemoryArtifactStore
         (LocalFilesystemCodeQLDatabaseStore dbp) (QueueSingle 2) 2]
      @ (case sigChan e of
           None \<Rightarrow> []
         | Some s \<Rightarrow> [RecvSignal s, Cancel (WithCancel Background)])"
    using main1_standalone_token[of fl e dbp] by blast
  have s1: "\<not> helpFlag fl \<and> level_of (logLevel fl) = Some lv \<and> mode fl = ''container''
       \<and> deploy_InitRabbitMQ e False = None \<and> deploy_InitMinIOArtifactStore e = None
       \<and> deploy_InitMinIOCodeQLDatabaseStore e = None \<longrightarrow>
      main1 e fl =
        ([SetLogLoggerLevel lv, LoadConfig ''mcconfig.toml'',
          LogPrintf (''Help: %t'' @ [CHR 0x0A]) [ArgBool False],
          LogPrintf (''Log Level: %s'' @ [CHR 0x0A]) [ArgStr (logLevel fl)],
          LogPrintf (''Mode: %s'' @ [CHR 0x0A]) [ArgStr ''container''],
          SignalNotify [SIGINT, SIGTERM], InitRabbitMQ False, InitMinIOArtifactStore,
          InitMinIOCodeQLDatabaseStore,
          NewLocalState (StartingID (Storage (mcc_LoadConfig e ''mcconfig.toml''))),
          NewCommanderSingle
            \<lparr>Queue = RabbitMQQueue False,
             State = LocalState (StartingID (Storage (mcc_LoadConfig e ''mcconfig.toml''))),
             Artifacts = MinIOArtifactStore, CodeQLDBStore = MinIOCodeQLDatabaseStore\<rparr>,
          SlogInfo ''Started server in container mode.'' []]
         @ (case sigChan e of
              None \<Rightarrow> []
            | Some s \<Rightarrow>
                [RecvSignal s, SlogInfo ''Server shutdown complete'' [],
                 QueueClose (RabbitMQQueue False)]),
         case sigChan e of None \<Rightarrow> Blocked | Some s \<Rightarrow> Returned)"
    using main1_container_shutdown[of fl lv e] by blast
  have s2: "\<not> helpFlag fl \<and> level_of (logLevel fl) = Some lv \<and> mode fl = ''container''
       \<and> deploy_InitRabbitMQ e False = None \<and> deploy_InitMinIOArtifactStore e = None
       \<and> deploy_InitHEPCDatabaseStore e = None \<longrightarrow>
      main2 e fl =
        ([SetLogLoggerLevel lv,
          LogPrintf (''Help: %t'' @ [CHR 0x0A]) [ArgBool False],
          LogPrintf (''Log Level: %s'' @ [CHR 0x0A]) [ArgStr (logLevel fl)],
          LogPrintf (''Mode: %s'' @ [CHR 0x0A]) [ArgStr ''container''],
          SignalNotify [SIGINT, SIGTERM], InitRabbitMQ False, InitMinIOArtifactStore,
          InitHEPCDatabaseStore, NewPGState,
          NewCommanderSingle
            \<lparr>Queue = RabbitMQQueue False, State = PGState,
             Artifacts = MinIOArtifactStore, CodeQLDBStore = HEPCDatabaseStore\<rparr>,
          SlogInfo ''Started server in container mode.'' []]
         @ (case sigChan e of
              None \<Rightarrow> []
            | Some s \<Rightarrow>
                [RecvSignal s, SlogInfo ''Server shutdown complete'' [],
                 QueueClose (RabbitMQQueue False)]),
         case sigChan e of None \<Rightarrow> Blocked | Some s \<Rightarrow> Returned)"
    using main2_container_shutdown[of fl lv e] by blast
  show ?thesis
    by (intro conjI a b c d s1 s2)
qed

theorem C4_cancellation_token_witness:
  "\<not> helpFlag standalone_flags \<and> logLevel standalone_flags \<in> loglevels
   \<and> mode standalone_flags = ''standalone''
   \<and> snd (process_dbroot sample_env (mode standalone_flags) (dbPathRoot standalone_flags))
       = Continue ''/opt/mrva/codeql/dbs/''
   \<and> filter (\<lambda>ev. is_context_call ev \<or> is_worker_start ev \<or> is_signal_receipt ev)
        (fst (main1 sample_env standalone_flags)) =
      [ContextWithCancel Background,
       GoStartAndMonitorWorkers (WithCancel Background) InMemoryArtifactStore
         (LocalFilesystemCodeQLDatabaseStore ''/opt/mrva/codeql/dbs/'') (QueueSingle 2) 2,
       RecvSignal SIGTERM, Cancel (WithCancel Background)]
   \<and> mode container_flags \<noteq> ''standalone''
   \<and> filter is_context_call (fst (main1 sample_env container_flags)) = []
   \<and> level_of (logLevel container_flags) = Some LevelInfo
   \<and> snd (main1 sample_env container_flags) = Returned
   \<and> snd (main2 sample_env container_flags) = Returned
   \<and> last (fst (main1 sample_env container_flags)) = QueueClose (RabbitMQQueue False)
   \<and> last (fst (main2 sample_env container_flags)) = QueueClose (RabbitMQQueue False)"
proof -
  have h: "\<not> helpFlag standalone_flags \<and> logLevel standalone_flags \<in> loglevels
      \<and> mode standalone_flags = ''standalone''
      \<and> snd (process_dbroot sample_env (mode standalone_flags) (dbPathRoot standalone_flags))
          = Continue ''/opt/mrva/codeql/dbs/''"
    by (simp add: process_dbroot_snd standalone_flags_def loglevels_def sample_env_def
        dir_sample_def)
  have g: "sigChan sample_env = Some SIGTERM"
    by (simp add: sample_env_def)
  have f: "filter (\<lambda>ev. is_context_call ev \<or> is_worker_start ev \<or> is_signal_receipt ev)
        (fst (main1 sample_env standalone_flags)) =
      [ContextWithCancel Background,
       GoStartAndMonitorWorkers (WithCancel Background) InMemoryArtifactStore
         (LocalFilesystemCodeQLDatabaseStore ''/opt/mrva/codeql/dbs/'') (QueueSingle 2) 2]
      @ (case sigChan sample_env of
           None \<Rightarrow> []
         | Some s \<Rightarrow> [RecvSignal s, Cancel (WithCancel Background)])"
    using h
      C4_cancellation_token[where e = sample_env and fl = standalone_flags
        and dbp = "''/opt/mrva/codeql/dbs/''"]
    by blast
  have c: "\<not> helpFlag container_flags \<and> level_of (logLevel container_flags) = Some LevelInfo
      \<and> mode container_flags = ''container'' \<and> mode container_flags \<noteq> ''standalone''
      \<and> deploy_InitRabbitMQ sample_env False = None
      \<and> deploy_InitMinIOArtifactStore sample_env = None
      \<and> deploy_InitMinIOCodeQLDatabaseStore sample_env = None
      \<and> deploy_InitHEPCDatabaseStore sample_env = None"
    by (simp add: container_flags_def level_of_def sample_env_def)
  have n: "filter is_context_call (fst (main1 sample_env container_flags)) = []"
    using c C4_cancellation_token[where e = sample_env and fl = container_flags]
    by blast
  have r1: "main1 sample_env container_flags =
        ([SetLogLoggerLevel LevelInfo, LoadConfig ''mcconfig.toml'',
          LogPrintf (''Help: %t'' @ [CHR 0x0A]) [ArgBool False],
          LogPrintf (''Log Level: %s'' @ [CHR 0x0A]) [ArgStr (logLevel container_flags)],
          LogPrintf (''Mode: %s'' @ [CHR 0x0A]) [ArgStr ''container''],
          SignalNotify [SIGINT, SIGTERM], InitRabbitMQ False, InitMinIOArtifactStore,
          InitMinIOCodeQLDatabaseStore,
          NewLocalState (StartingID (Storage (mcc_LoadConfig sample_env ''mcconfig.toml''))),
          NewCommanderSingle
            \<lparr>Queue = RabbitMQQueue False,
             State = LocalState
               (StartingID (Storage (mcc_LoadConfig sample_env ''mcconfig.toml''))),
             Artifacts = MinIOArtifactStore, CodeQLDBStore = MinIOCodeQLDatabaseStore\<rparr>,
          SlogInfo ''Started server in container mode.'' []]
         @ (case sigChan sample_env of
              None \<Rightarrow> []
            | Some s \<Rightarrow>
                [RecvSignal s, SlogInfo ''Server shutdown complete'' [],
                 QueueClose (RabbitMQQueue False)]),
         case sigChan sample_env of None \<Rightarrow> Blocked | Some s \<Rightarrow> Returned)"
    using c
      C4_cancellation_token[where e = sample_env and fl = container_flags
        and lv = LevelInfo]
    by blast
  have r2: "main2 sample_env container_flags =
        ([SetLogLoggerLevel LevelInfo,
          LogPrintf (''Help: %t'' @ [CHR 0x0A]) [ArgBool False],
          LogPrintf (''Log Level: %s'' @ [CHR 0x0A]) [ArgStr (logLevel container_flags)],
          LogPrintf (''Mode: %s'' @ [CHR 0x0A]) [ArgStr ''container''],
          SignalNotify [SIGINT, SIGTERM], InitRabbitMQ False, InitMinIOArtifactStore,
          InitHEPCDatabaseStore, NewPGState,
          NewCommanderSingle
            \<lparr>Queue = RabbitMQQueue False, State = PGState,
             Artifacts = MinIOArtifactStore, CodeQLDBStore = HEPCDatabaseStore\<rparr>,
          SlogInfo ''Started server in container mode.'' []]
         @ (case sigChan sample_env of
              None \<Rightarrow> []
            | Some s \<Rightarrow>
                [RecvSignal s, SlogInfo ''Server shutdown complete'' [],
                 QueueClose (RabbitMQQueue False)]),
         case sigChan sample_env of None \<Rightarrow> Blocked | Some s \<Rightarrow> Returned)"
    using c
      C4_cancellation_token[where e = sample_env and fl = container_flags
        and lv = LevelInfo]
    by blast
  have f': "filter (\<lambda>ev. is_context_call ev \<or> is_worker_start ev \<or> is_signal_receipt ev)
        (fst (main1 sample_env standalone_flags)) =
      [ContextWithCancel Background,
       GoStartAndMonitorWorkers (WithCancel Background) InMemoryArtifactStore
         (LocalFilesystemCodeQLDatabaseStore ''/opt/mrva/codeql/dbs/'') (QueueSingle 2) 2,
       RecvSignal SIGTERM, Cancel (WithCancel Background)]"
    using f by (simp add: g)
  have o1: "snd (main1 sample_env container_flags) = Returned
      \<and> last (fst (main1 sample_env container_flags)) = QueueClose (RabbitMQQueue False)"
    by (simp add: r1 g)
  have o2: "snd (main2 sample_env container_flags) = Returned
      \<and> last (fst (main2 sample_env container_flags)) = QueueClose (RabbitMQQueue False)"
    by (simp add: r2 g)
  show ?thesis
    using h c n f' o1 o2 by blast
qed

subsection \<open>C8: what the standalone branch assembles\<close>

lemma standalone1_assembly:
  "filter (\<lambda>ev. is_backend_call ev \<or> is_commander_call ev \<or> is_worker_start ev)
     (fst (standalone1 e cfg dbp)) =
   [NewQueueSingle 2, NewLocalState (StartingID (Storage cfg)), NewInMemoryArtifactStore,
    NewLocalFilesystemCodeQLDatabaseStore dbp,
    NewCommanderSingle
      \<lparr>Queue = QueueSingle 2, State = LocalState (StartingID (Storage cfg)),
       Artifacts = InMemoryArtifactStore,
       CodeQLDBStore = LocalFilesystemCodeQLDatabaseStore dbp\<rparr>,
    GoStartAndMonitorWorkers (WithCancel Background) InMemoryArtifactStore
      (LocalFilesystemCodeQLDatabaseStore dbp) (QueueSingle 2) 2]"
  by (simp add: standalone1_run split: option.split)

lemma main1_standalone_assembly:
  assumes "\<not> helpFlag fl" and "logLevel fl \<in> loglevels" and "mode fl = ''standalone''"
    and "snd (process_dbroot e (mode fl) (dbPathRoot fl)) = Continue dbp"
  shows "filter (\<lambda>ev. is_backend_call ev \<or> is_commander_call ev \<or> is_worker_start ev)
     (fst (main1 e fl)) =
   [NewQueueSingle 2,
    NewLocalState (StartingID (Storage (mcc_LoadConfig e ''mcconfig.toml''))),
    NewInMemoryArtifactStore,
    NewLocalFilesystemCodeQLDatabaseStore dbp,
    NewCommanderSingle
      \<lparr>Queue = QueueSingle 2,
       State = LocalState (StartingID (Storage (mcc_LoadConfig e ''mcconfig.toml''))),
       Artifacts = InMemoryArtifactStore,
       CodeQLDBStore = LocalFilesystemCodeQLDatabaseStore dbp\<rparr>,
    GoStartAndMonitorWorkers (WithCancel Background) InMemoryArtifactStore
      (LocalFilesystemCodeQLDatabaseStore dbp) (QueueSingle 2) 2]"
proof (cases rule: main1_runs[of fl e])
  case (given lv)
  then show ?thesis using assms(4)
    by (auto simp: process_dbroot_snd standalone1_run summary_def split: option.splits)
next
  case (derived lv p)
  then show ?thesis using assms(4)
    by (auto simp: process_dbroot_snd standalone1_run summary_def split: option.splits)
qed (use assms in \<open>auto simp: process_dbroot_snd\<close>)

text \<open>
  Claim C8.  The standalone branch of the first bootstrap constructs exactly one backend
  per abstraction, in this order: the in-process queue of capacity 2
  (\<^verbatim>\<open>queue.NewQueueSingle(2)\<close>), the in-memory state store
  (\<^verbatim>\<open>state.NewLocalState\<close>), the in-memory artifact store and the local-filesystem
  database store; it hands these four to \<^verbatim>\<open>server.NewCommanderSingle\<close> and only then
  starts the worker supervisor, on the same artifact store, database store and queue.
  No other backend call occurs, in the branch or in the whole run that reaches it.
\<close>

theorem C8_standalone_assembly:
  "filter (\<lambda>ev. is_backend_call ev \<or> is_commander_call ev \<or> is_worker_start ev)
     (fst (standalone1 e cfg dbp)) =
   [NewQueueSingle 2, NewLocalState (StartingID (Storage cfg)), NewInMemoryArtifactStore,
    NewLocalFilesystemCodeQLDatabaseStore dbp,
    NewCommanderSingle
      \<lparr>Queue = QueueSingle 2, State = LocalState (StartingID (Storage cfg)),
       Artifacts = InMemoryArtifactStore,
       CodeQLDBStore = LocalFilesystemCodeQLDatabaseStore dbp\<rparr>,
    GoStartAndMonitorWorkers (WithCancel Background) InMemoryArtifactStore
      (LocalFilesystemCodeQLDatabaseStore dbp) (QueueSingle 2) 2]
   \<and> (\<not> helpFlag fl \<and> logLevel fl \<in> loglevels \<and> mode fl = ''standalone''
       \<and> snd (process_dbroot e (mode fl) (dbPathRoot fl)) = Continue dbp \<longrightarrow>
      filter (\<lambda>ev. is_backend_call ev \<or> is_commander_call ev \<or> is_worker_start ev)
        (fst (main1 e fl)) =
      [NewQueueSingle 2,
       NewLocalState (StartingID (Storage (mcc_LoadConfig e ''mcconfig.toml''))),
       NewInMemoryArtifactStore,
       NewLocalFilesystemCodeQLDatabaseStore dbp,
       NewCommanderSingle
         \<lparr>Queue = QueueSingle 2,
          State = LocalState (StartingID (Storage (mcc_LoadConfig e ''mcconfig.toml''))),
          Artifacts = InMemoryArtifactStore,
          CodeQLDBStore = LocalFilesystemCodeQLDatabaseStore dbp\<rparr>,
       GoStartAndMonitorWorkers (WithCancel Background) InMemoryArtifactStore
         (LocalFilesystemCodeQLDatabaseStore dbp) (QueueSingle 2) 2])"
  using standalone1_assembly[of e cfg dbp] main1_standalone_assembly[of fl e dbp]
  by blast

theorem C8_standalone_assembly_witness:
  "\<not> helpFlag standalone_flags \<and> logLevel standalone_flags \<in> loglevels
   \<and> mode standalone_flags = ''standalone''
   \<and> snd (process_dbroot sample_env (mode standalone_flags) (dbPathRoot standalone_flags))
       = Continue ''/opt/mrva/codeql/dbs/''
   \<and> filter (\<lambda>ev. is_backend_call ev \<or> is_commander_call ev \<or> is_worker_start ev)
        (fst (main1 sample_env standalone_flags)) =
      [NewQueueSingle 2, NewLocalState 10, NewInMemoryArtifactStore,
       NewLocalFilesystemCodeQLDatabaseStore ''/opt/mrva/codeql/dbs/'',
       NewCommanderSingle
         \<lparr>Queue = QueueSingle 2, State = LocalState 10,
          Artifacts = InMemoryArtifactStore,
          CodeQLDBStore = LocalFilesystemCodeQLDatabaseStore ''/opt/mrva/codeql/dbs/''\<rparr>,
       GoStartAndMonitorWorkers (WithCancel Background) InMemoryArtifactStore
         (LocalFilesystemCodeQLDatabaseStore ''/opt/mrva/codeql/dbs/'') (QueueSingle 2) 2]"
proof -
  have h: "\<not> helpFlag standalone_flags \<and> logLevel standalone_flags \<in> loglevels
      \<and> mode standalone_flags = ''standalone''
      \<and> snd (process_dbroot sample_env (mode standalone_flags) (dbPathRoot standalone_flags))
          = Continue ''/opt/mrva/codeql/dbs/''"
    by (simp add: process_dbroot_snd standalone_flags_def loglevels_def sample_env_def
        dir_sample_def)
  have c: "StartingID (Storage (mcc_LoadConfig sample_env ''mcconfig.toml'')) = 10"
    by (simp add: sample_env_def)
  have r: "filter (\<lambda>ev. is_backend_call ev \<or> is_commander_call ev \<or> is_worker_start ev)
        (fst (main1 sample_env standalone_flags)) =
      [NewQueueSingle 2,
       NewLocalState (StartingID (Storage (mcc_LoadConfig sample_env ''mcconfig.toml''))),
       NewInMemoryArtifactStore,
       NewLocalFilesystemCodeQLDatabaseStore ''/opt/mrva/codeql/dbs/'',
       NewCommanderSingle
         \<lparr>Queue = QueueSingle 2,
          State = LocalState
            (StartingID (Storage (mcc_LoadConfig sample_env ''mcconfig.toml''))),
          Artifacts = InMemoryArtifactStore,
          CodeQLDBStore = LocalFilesystemCodeQLDatabaseStore ''/opt/mrva/codeql/dbs/''\<rparr>,
       GoStartAndMonitorWorkers (WithCancel Background) InMemoryArtifactStore
         (LocalFilesystemCodeQLDatabaseStore ''/opt/mrva/codeql/dbs/'') (QueueSingle 2) 2]"
    using h
      C8_standalone_assembly[where e = sample_env and dbp = "''/opt/mrva/codeql/dbs/''"
        and fl = standalone_flags]
    by blast
  have r': "filter (\<lambda>ev. is_backend_call ev \<or> is_commander_call ev \<or> is_worker_start ev)
        (fst (main1 sample_env standalone_flags)) =
      [NewQueueSingle 2, NewLocalState 10, NewInMemoryArtifactStore,
       NewLocalFilesystemCodeQLDatabaseStore ''/opt/mrva/codeql/dbs/'',
       NewCommanderSingle
         \<lparr>Queue = QueueSingle 2, State = LocalState 10,
          Artifacts = InMemoryArtifactStore,
          CodeQLDBStore = LocalFilesystemCodeQLDatabaseStore ''/opt/mrva/codeql/dbs/''\<rparr>,
       GoStartAndMonitorWorkers (WithCancel Background) InMemoryArtifactStore
         (LocalFilesystemCodeQLDatabaseStore ''/opt/mrva/codeql/dbs/'') (QueueSingle 2) 2]"
    using r by (simp add: c)
  show ?thesis
    using h r' by blast
qed

subsection \<open>C10: the default database root\<close>

lemma main1_default_dbroot:
  assumes "\<not> helpFlag fl" and "logLevel fl \<in> loglevels" and "mode fl = ''standalone''"
    and "dbPathRoot fl = ''''"
  shows "(snd (main1 e fl) = Exit 1) = (\<exists>er. os_Executable e = Inl er)"
    and "os_Executable e = Inr p \<Longrightarrow>
      NewLocalFilesystemCodeQLDatabaseStore (filepath_Dir e p @ ''/codeql/dbs/'')
      \<in> set (fst (main1 e fl))"
proof -
  show "(snd (main1 e fl) = Exit 1) = (\<exists>er. os_Executable e = Inl er)"
    by (cases rule: main1_runs[of fl e])
      (use assms in \<open>auto simp: standalone1_run split: option.splits\<close>)
  show "NewLocalFilesystemCodeQLDatabaseStore (filepath_Dir e p @ ''/codeql/dbs/'')
      \<in> set (fst (main1 e fl))" if "os_Executable e = Inr p"
    by (cases rule: main1_runs[of fl e])
      (use assms that in \<open>auto simp: standalone1_run split: option.splits\<close>)
qed

text \<open>
  Claim C10.  The block ``process database root'' run in standalone mode with an empty
  \<^verbatim>\<open>--dbpath\<close>: when the executable path resolves to \<open>p\<close>, \<^verbatim>\<open>*dbPathRoot\<close> becomes
  \<^verbatim>\<open>filepath.Dir(p) + "/codeql/dbs/"\<close>; the block exits with status 1 exactly when
  \<^verbatim>\<open>os.Executable()\<close> returns an error, and in no other case.  In every other mode, and
  whenever a path was given, the block makes no call and leaves \<^verbatim>\<open>*dbPathRoot\<close> as it
  was.  In a run of the first bootstrap that reaches the block (no \<^verbatim>\<open>--help\<close>, a valid log
  level) in standalone mode with an empty path, the process exits with status 1 exactly
  when the executable path cannot be resolved, and otherwise the derived path is the
  root of the database store it constructs.
\<close>

theorem C10_default_dbroot:
  "(m = ''standalone'' \<and> d = '''' \<and> os_Executable e = Inr p \<longrightarrow>
      snd (process_dbroot e m d) = Continue (filepath_Dir e p @ ''/codeql/dbs/''))
   \<and> (m = ''standalone'' \<and> d = '''' \<and> os_Executable e = Inl er \<longrightarrow>
      snd (process_dbroot e m d) = Stop (Exit 1))
   \<and> (snd (process_dbroot e m d) = Stop (Exit 1) \<longrightarrow>
      m = ''standalone'' \<and> d = '''' \<and> (\<exists>er. os_Executable e = Inl er))
   \<and> (m \<noteq> ''standalone'' \<or> d \<noteq> '''' \<longrightarrow> process_dbroot e m d = ([], Continue d))
   \<and> (\<not> helpFlag fl \<and> logLevel fl \<in> loglevels \<and> mode fl = ''standalone''
       \<and> dbPathRoot fl = '''' \<longrightarrow>
      (snd (main1 e fl) = Exit 1) = (\<exists>er. os_Executable e = Inl er)
      \<and> (os_Executable e = Inr p \<longrightarrow>
           NewLocalFilesystemCodeQLDatabaseStore (filepath_Dir e p @ ''/codeql/dbs/'')
           \<in> set (fst (main1 e fl))))"
proof -
  have a: "m = ''standalone'' \<and> d = [] \<and> os_Executable e = Inr p \<longrightarrow>
      snd (process_dbroot e m d) = Continue (filepath_Dir e p @ ''/codeql/dbs/'')"
    by (simp add: process_dbroot_snd)
  have b: "m = ''standalone'' \<and> d = [] \<and> os_Executable e = Inl er \<longrightarrow>
      snd (process_dbroot e m d) = Stop (Exit 1)"
    by (simp add: process_dbroot_snd)
  have c: "snd (process_dbroot e m d) = Stop (Exit 1) \<longrightarrow>
      m = ''standalone'' \<and> d = [] \<and> (\<exists>er. os_Executable e = Inl er)"
    by (cases "os_Executable e") (simp_all add: process_dbroot_snd split: if_splits)
  have u: "m \<noteq> ''standalone'' \<or> d \<noteq> [] \<longrightarrow> process_dbroot e m d = ([], Continue d)"
    by (auto simp: process_dbroot_def)
  have f: "\<not> helpFlag fl \<and> logLevel fl \<in> loglevels \<and> mode fl = ''standalone''
       \<and> dbPathRoot fl = [] \<longrightarrow>
      (snd (main1 e fl) = Exit 1) = (\<exists>er. os_Executable e = Inl er)
      \<and> (os_Executable e = Inr p \<longrightarrow>
           NewLocalFilesystemCodeQLDatabaseStore (filepath_Dir e p @ ''/codeql/dbs/'')
           \<in> set (fst (main1 e fl)))"
    using main1_default_dbroot(1)[of fl e] main1_default_dbroot(2)[of fl e p]
    by blast
  show ?thesis
    by (intro conjI a b c u f)
qed

theorem C10_default_dbroot_witness:
  "os_Executable sample_env = Inr ''/opt/mrva/server''
   \<and> snd (process_dbroot sample_env ''standalone'' '''') = Continue ''/opt/mrva/codeql/dbs/''
   \<and> process_dbroot sample_env ''container'' '''' = ([], Continue '''')
   \<and> snd (main1 sample_env standalone_flags) \<noteq> Exit 1
   \<and> NewLocalFilesystemCodeQLDatabaseStore ''/opt/mrva/codeql/dbs/''
      \<in> set (fst (main1 sample_env standalone_flags))"
proof -
  have x: "os_Executable sample_env = Inr ''/opt/mrva/server''"
    by (simp add: sample_env_def)
  have d: "filepath_Dir sample_env ''/opt/mrva/server'' @ ''/codeql/dbs/''
      = ''/opt/mrva/codeql/dbs/''"
    by (simp add: sample_env_def dir_sample_def)
  have h: "\<not> helpFlag standalone_flags \<and> logLevel standalone_flags \<in> loglevels
      \<and> mode standalone_flags = ''standalone'' \<and> dbPathRoot standalone_flags = ''''"
    by (simp add: standalone_flags_def loglevels_def)
  show ?thesis
    using x d h
      C10_default_dbroot[where m = "''standalone''" and d = "''''" and e = sample_env
        and p = "''/opt/mrva/server''" and fl = standalone_flags]
      C10_default_dbroot[where m = "''container''" and d = "''''" and e = sample_env
        and p = "''/opt/mrva/server''" and fl = standalone_flags]
    by simp
qed

section \<open>Claims about the state store\<close>

subsection \<open>C5: completion is idempotent\<close>

lemma CompleteWorkItem_done:
  assumes "CompleteWorkItem wid r s = (None, s1)"
  shows "\<exists>j. s1 (fst wid) = Some j \<and> snd wid < length (work_items j)
           \<and> status (work_items j ! snd wid) = Succeeded
           \<and> artifact_key (work_items j ! snd wid) = Some r"
proof (cases "s (fst wid)")
  case None
  then show ?thesis using assms by (simp add: CompleteWorkItem_def)
next
  case (Some j)
  show ?thesis
  proof (cases "length (work_items j) \<le> snd wid")
    case True
    then show ?thesis using assms Some by (simp add: CompleteWorkItem_def)
  next
    case False
    then show ?thesis using assms Some
      by (cases "status (work_items j ! snd wid)")
        (auto simp: CompleteWorkItem_def Let_def split: if_splits)
  qed
qed

lemma CompleteWorkItem_again:
  assumes "s1 (fst wid) = Some j" and "snd wid < length (work_items j)"
    and "status (work_items j ! snd wid) = Succeeded"
    and "artifact_key (work_items j ! snd wid) = Some r"
  shows "CompleteWorkItem wid r' s1 = (if r' = r then None else Some Conflict, s1)"
  using assms by (simp add: CompleteWorkItem_def Let_def)

lemma CompleteWorkItem_error_unchanged:
  assumes "fst (CompleteWorkItem wid r s) \<noteq> None"
  shows "snd (CompleteWorkItem wid r s) = s"
proof (cases "s (fst wid)")
  case None
  then show ?thesis by (simp add: CompleteWorkItem_def)
next
  case (Some j)
  show ?thesis
  proof (cases "length (work_items j) \<le> snd wid")
    case True
    then show ?thesis using Some by (simp add: CompleteWorkItem_def)
  next
    case False
    then show ?thesis using assms Some
      by (cases "status (work_items j ! snd wid)")
        (auto simp: CompleteWorkItem_def Let_def split: if_splits)
  qed
qed

lemma CompleteWorkItem_twice:
  "snd (CompleteWorkItem wid r (snd (CompleteWorkItem wid r s)))
   = snd (CompleteWorkItem wid r s)"
proof (cases "fst (CompleteWorkItem wid r s)")
  case None
  then have c: "CompleteWorkItem wid r s = (None, snd (CompleteWorkItem wid r s))"
    by (metis prod.collapse)
  from CompleteWorkItem_done[OF c] obtain j where
    "snd (CompleteWorkItem wid r s) (fst wid) = Some j" "snd wid < length (work_items j)"
    "status (work_items j ! snd wid) = Succeeded"
    "artifact_key (work_items j ! snd wid) = Some r"
    by blast
  then show ?thesis
    by (simp add: CompleteWorkItem_again[where r = r])
next
  case (Some er)
  then have "snd (CompleteWorkItem wid r s) = s"
    by (simp add: CompleteWorkItem_error_unchanged)
  then show ?thesis by simp
qed

text \<open>
  Claim C5.  When \<^verbatim>\<open>CompleteWorkItem(id, r)\<close> has succeeded, a second call with the same
  result succeeds again and returns the very same store, and a second call with any other
  result is refused with \<open>Conflict\<close> and leaves the store as it was.  Whatever the first
  call did, the store after two calls with the same result is the store after one.
\<close>

theorem C5_complete_idempotent:
  "(CompleteWorkItem wid r s = (None, s1) \<longrightarrow>
      CompleteWorkItem wid r s1 = (None, s1)
      \<and> (r' \<noteq> r \<longrightarrow> CompleteWorkItem wid r' s1 = (Some Conflict, s1)))
   \<and> snd (CompleteWorkItem wid r (snd (CompleteWorkItem wid r s)))
       = snd (CompleteWorkItem wid r s)"
proof -
  have "CompleteWorkItem wid r s1 = (None, s1)
      \<and> (r' \<noteq> r \<longrightarrow> CompleteWorkItem wid r' s1 = (Some Conflict, s1))"
    if c: "CompleteWorkItem wid r s = (None, s1)"
  proof -
    from CompleteWorkItem_done[OF c] obtain j where
      j: "s1 (fst wid) = Some j" "snd wid < length (work_items j)"
      "status (work_items j ! snd wid) = Succeeded"
      "artifact_key (work_items j ! snd wid) = Some r"
      by blast
    have "CompleteWorkItem wid r s1 = (None, s1)"
      using j by (simp add: CompleteWorkItem_def Let_def)
    moreover have "CompleteWorkItem wid r' s1 = (Some Conflict, s1)" if "r' \<noteq> r"
      using j that by (simp add: CompleteWorkItem_def Let_def)
    ultimately show ?thesis by blast
  qed
  then show ?thesis
    using CompleteWorkItem_twice[of wid r s] by blast
qed

lemma sample_complete:
  "CompleteWorkItem (1, 0) ''result-a'' sample_store = (None, sample_store_done)"
  by (simp add: CompleteWorkItem_def sample_store_def sample_store_done_def sample_item_def
      Let_def)

theorem C5_complete_idempotent_witness:
  "CompleteWorkItem (1, 0) ''result-a'' sample_store = (None, sample_store_done)
   \<and> CompleteWorkItem (1, 0) ''result-a'' sample_store_done = (None, sample_store_done)
   \<and> CompleteWorkItem (1, 0) ''result-b'' sample_store_done
       = (Some Conflict, sample_store_done)"
proof -
  have n: "''result-b'' \<noteq> ''result-a''"
    by simp
  show ?thesis
    using sample_complete n
      C5_complete_idempotent[where wid = "(1, 0)" and r = "''result-a''"
        and s = sample_store and ?s1.0 = sample_store_done and r' = "''result-b''"]
    by blast
qed

subsection \<open>C6: the derived job status\<close>

lemma job_status_of_set:
  assumes "set sts = set sts'"
  shows "job_status_of sts = job_status_of sts'"
  using assms by (simp add: job_status_of_def list_all_iff list_ex_iff)

lemma job_status_of_ordered:
  "(list_all (\<lambda>st. st = Enqueued) sts \<longrightarrow> job_status_of sts = Submitted)
   \<and> (\<not> list_all (\<lambda>st. st = Enqueued) sts \<and> list_ex (\<lambda>st. \<not> terminal st) sts \<longrightarrow>
        job_status_of sts = Running)
   \<and> (\<not> list_all (\<lambda>st. st = Enqueued) sts \<and> \<not> list_ex (\<lambda>st. \<not> terminal st) sts
        \<and> list_all (\<lambda>st. st = Succeeded) sts \<longrightarrow>
        job_status_of sts = Completed)
   \<and> (\<not> list_all (\<lambda>st. st = Enqueued) sts \<and> \<not> list_ex (\<lambda>st. \<not> terminal st) sts
        \<and> \<not> list_all (\<lambda>st. st = Succeeded) sts
        \<and> list_all terminal sts \<and> list_ex (\<lambda>st. st = Failed) sts
        \<and> list_ex (\<lambda>st. st = Succeeded) sts \<longrightarrow>
        job_status_of sts = PartiallyFailed)
   \<and> (\<not> list_all (\<lambda>st. st = Enqueued) sts \<and> \<not> list_ex (\<lambda>st. \<not> terminal st) sts
        \<and> \<not> list_all (\<lambda>st. st = Succeeded) sts
        \<and> \<not> (list_all terminal sts \<and> list_ex (\<lambda>st. st = Failed) sts
              \<and> list_ex (\<lambda>st. st = Succeeded) sts)
        \<and> list_all (\<lambda>st. st = Failed) sts \<longrightarrow>
        job_status_of sts = JobFailed)"
  by (auto simp: job_status_of_def list_all_iff list_ex_iff)

lemma job_status_of_exhaustive:
  assumes "\<not> list_all (\<lambda>st. st = Enqueued) sts"
    and "\<not> list_ex (\<lambda>st. \<not> terminal st) sts"
    and "\<not> list_all (\<lambda>st. st = Succeeded) sts"
    and "\<not> (list_all terminal sts \<and> list_ex (\<lambda>st. st = Failed) sts
            \<and> list_ex (\<lambda>st. st = Succeeded) sts)"
  shows "list_all (\<lambda>st. st = Failed) sts"
  using assms by (auto simp: list_all_iff list_ex_iff terminal_def)

text \<open>
  Claim C6.  The status of a job is a function of the states of its work items, whatever
  their order, and it is the first status of the specification's list whose condition
  holds: \<open>Submitted\<close> when no item has started (none has left \<open>Enqueued\<close>); otherwise
  \<open>Running\<close> when at least one item is non-terminal; otherwise \<open>Completed\<close> when all
  items \<open>Succeeded\<close>; otherwise \<open>PartiallyFailed\<close> when all items are terminal, at least
  one \<open>Failed\<close> and at least one \<open>Succeeded\<close>; otherwise \<open>Failed\<close> when all items
  \<open>Failed\<close>.  The list is exhaustive: when none of the first four conditions holds, all
  items \<open>Failed\<close>.  In particular Succeeded, Succeeded gives Completed; Succeeded, Failed
  gives PartiallyFailed; Failed, Failed gives Failed; Enqueued, Succeeded gives Running.
\<close>

theorem C6_derived_job_status:
  "(s jid = Some j \<longrightarrow> GetJobStatus jid s = Inr (job_status_of (map status (work_items j))))
   \<and> (set sts = set sts' \<longrightarrow> job_status_of sts = job_status_of sts')
   \<and> (list_all (\<lambda>st. st = Enqueued) sts \<longrightarrow> job_status_of sts = Submitted)
   \<and> (\<not> list_all (\<lambda>st. st = Enqueued) sts \<and> list_ex (\<lambda>st. \<not> terminal st) sts \<longrightarrow>
        job_status_of sts = Running)
   \<and> (\<not> list_all (\<lambda>st. st = Enqueued) sts \<and> \<not> list_ex (\<lambda>st. \<not> terminal st) sts
        \<and> list_all (\<lambda>st. st = Succeeded) sts \<longrightarrow>
        job_status_of sts = Completed)
   \<and> (\<not> list_all (\<lambda>st. st = Enqueued) sts \<and> \<not> list_ex (\<lambda>st. \<not> terminal st) sts
        \<and> \<not> list_all (\<lambda>st. st = Succeeded) sts
        \<and> list_all terminal sts \<and> list_ex (\<lambda>st. st = Failed) sts
        \<and> list_ex (\<lambda>st. st = Succeeded) sts \<longrightarrow>
        job_status_of sts = PartiallyFailed)
   \<and> (\<not> list_all (\<lambda>st. st = Enqueued) sts \<and> \<not> list_ex (\<lambda>st. \<not> terminal st) sts
        \<and> \<not> list_all (\<lambda>st. st = Succeeded) sts
        \<and> \<not> (list_all terminal sts \<and> list_ex (\<lambda>st. st = Failed) sts
              \<and> list_ex (\<lambda>st. st = Succeeded) sts)
        \<and> list_all (\<lambda>st. st = Failed) sts \<longrightarrow>
        job_status_of sts = JobFailed)
   \<and> (\<not> list_all (\<lambda>st. st = Enqueued) sts \<and> \<not> list_ex (\<lambda>st. \<not> terminal st) sts
        \<and> \<not> list_all (\<lambda>st. st = Succeeded) sts
        \<and> \<not> (list_all terminal sts \<and> list_ex (\<lambda>st. st = Failed) sts
              \<and> list_ex (\<lambda>st. st = Succeeded) sts) \<longrightarrow>
        list_all (\<lambda>st. st = Failed) sts)
   \<and> job_status_of [Succeeded, Succeeded] = Completed
   \<and> job_status_of [Succeeded, Failed] = PartiallyFailed
   \<and> job_status_of [Failed, Failed] = JobFailed
   \<and> job_status_of [Enqueued, Succeeded] = Running"
proof -
  have g: "s jid = Some j \<longrightarrow>
      GetJobStatus jid s = Inr (job_status_of (map status (work_items j)))"
    by (simp add: GetJobStatus_def)
  have p: "set sts = set sts' \<longrightarrow> job_status_of sts = job_status_of sts'"
    using job_status_of_set[of sts sts'] by blast
  have x: "\<not> list_all (\<lambda>st. st = Enqueued) sts \<and> \<not> list_ex (\<lambda>st. \<not> terminal st) sts
        \<and> \<not> list_all (\<lambda>st. st = Succeeded) sts
        \<and> \<not> (list_all terminal sts \<and> list_ex (\<lambda>st. st = Failed) sts
              \<and> list_ex (\<lambda>st. st = Succeeded) sts) \<longrightarrow>
        list_all (\<lambda>st. st = Failed) sts"
    using job_status_of_exhaustive[of sts] by blast
  have e: "job_status_of [Succeeded, Succeeded] = Completed
      \<and> job_status_of [Succeeded, Failed] = PartiallyFailed
      \<and> job_status_of [Failed, Failed] = JobFailed
      \<and> job_status_of [Enqueued, Succeeded] = Running"
    by (simp add: job_status_of_def terminal_def)
  show ?thesis
    using g p x e job_status_of_ordered[of sts]
    by blast
qed

theorem C6_derived_job_status_witness:
  "sample_store_done 1 \<noteq> None
   \<and> GetJobStatus 1 sample_store_done = Inr Completed
   \<and> \<not> list_all (\<lambda>st. st = Enqueued) [Claimed, Failed]
   \<and> list_ex (\<lambda>st. \<not> terminal st) [Claimed, Failed]
   \<and> job_status_of [Claimed, Failed] = Running
   \<and> job_status_of [Failed, Claimed] = Running
   \<and> list_all (\<lambda>st. st = Enqueued) [Enqueued, Enqueued]
   \<and> job_status_of [Enqueued, Enqueued] = Submitted"
proof -
  have j: "sample_store_done 1 =
      Some \<lparr>tool = ''query'', submitted_at = 0,
            work_items =
              [\<lparr>dataset = ''db0'', status = Succeeded, claim_owner = None,
                attempt_count = 1, artifact_key = Some ''result-a'',
                error_summary = None\<rparr>]\<rparr>"
    by (simp add: sample_store_done_def)
  have h1: "\<not> list_all (\<lambda>st. st = Enqueued) [Succeeded]
      \<and> \<not> list_ex (\<lambda>st. \<not> terminal st) [Succeeded]
      \<and> list_all (\<lambda>st. st = Succeeded) [Succeeded]"
    by (simp add: terminal_def)
  have c: "job_status_of [Succeeded] = Completed"
    using h1
      C6_derived_job_status[where sts = "[Succeeded]" and sts' = "[Succeeded]"
        and s = sample_store_done and jid = 1]
    by blast
  have g: "GetJobStatus 1 sample_store_done = Inr Completed"
    using j c
      C6_derived_job_status[where s = sample_store_done and jid = 1 and sts = "[Succeeded]"
        and sts' = "[Succeeded]"]
    by simp
  have h: "\<not> list_all (\<lambda>st. st = Enqueued) [Claimed, Failed]
      \<and> list_ex (\<lambda>st. \<not> terminal st) [Claimed, Failed]"
    by (simp add: terminal_def)
  have p: "set [Claimed, Failed] = set [Failed, Claimed]"
    by auto
  have r: "job_status_of [Claimed, Failed] = Running
      \<and> job_status_of [Claimed, Failed] = job_status_of [Failed, Claimed]"
    using h p
      C6_derived_job_status[where sts = "[Claimed, Failed]" and sts' = "[Failed, Claimed]"
        and s = sample_store_done and jid = 1]
    by blast
  have q: "list_all (\<lambda>st. st = Enqueued) [Enqueued, Enqueued]"
    by simp
  have u: "job_status_of [Enqueued, Enqueued] = Submitted"
    using q
      C6_derived_job_status[where sts = "[Enqueued, Enqueued]"
        and sts' = "[Enqueued, Enqueued]" and s = sample_store_done and jid = 1]
    by blast
  show ?thesis
    using j g h r q u by auto
qed

end
